theory Spec2Isabelle
  imports Main "HOL-Library.Word" "HOL-Library.Log_Nat"
begin

unbundle bit_operations_syntax

section \<open>JavaScript numbers\<close>

text \<open>
  A JavaScript \<^verbatim>\<open>number\<close> is an IEEE 754 double: a finite value, which is a rational
  number of a special form, or one of NaN, +Infinity, -Infinity. The finite values are
  carried as the rational they denote; the sign of zero is not distinguished (the
  code under study never observes it).
\<close>

datatype jsnum = Fin rat | NaN | PInf | NInf

text \<open>\<open>ilog2 q\<close> is the binary exponent of \<open>q \<noteq> 0\<close>: the \<open>e\<close> with \<open>2\<^sup>e \<le> \<bar>q\<bar> < 2\<^sup>e\<^sup>+\<^sup>1\<close>.\<close>

definition ilog2 :: "rat \<Rightarrow> int" where
  "ilog2 q = (if 1 \<le> \<bar>q\<bar> then bitlen \<lfloor>\<bar>q\<bar>\<rfloor> - 1 else - bitlen (\<lceil>1 / \<bar>q\<bar>\<rceil> - 1))"

definition round_half_even :: "rat \<Rightarrow> int" where
  "round_half_even m = (let f = \<lfloor>m\<rfloor>; r = m - of_int f in
      if r < 1/2 then f else if 1/2 < r then f + 1 else if even f then f else f + 1)"

text \<open>
  IEEE 754 round-to-nearest, ties-to-even, into binary64: 53 significant bits, exponents
  from -1022 (below that the spacing stays \<open>2\<^sup>-\<^sup>1\<^sup>0\<^sup>7\<^sup>4\<close>, the subnormal range) to 1023
  (beyond that the result is an infinity). Every arithmetic result and every decimal
  literal goes through this rounding.
\<close>

definition roundToDouble :: "rat \<Rightarrow> jsnum" where
  "roundToDouble q = (if q = 0 then Fin 0 else
     let e = max (ilog2 q) (- 1022);
         u = 2 powi (e - 52);
         n = round_half_even (\<bar>q\<bar> / u)
     in if 1024 \<le> e \<or> (e = 1023 \<and> n = 2 ^ 53) then (if 0 < q then PInf else NInf)
        else Fin (sgn q * (of_int n * u)))"

text \<open>The \<^verbatim>\<open>*\<close> operator on numbers.\<close>

fun js_mul :: "jsnum \<Rightarrow> jsnum \<Rightarrow> jsnum" where
  "js_mul NaN _ = NaN"
| "js_mul _ NaN = NaN"
| "js_mul (Fin a) (Fin b) = roundToDouble (a * b)"
| "js_mul (Fin a) PInf = (if a = 0 then NaN else if 0 < a then PInf else NInf)"
| "js_mul (Fin a) NInf = (if a = 0 then NaN else if 0 < a then NInf else PInf)"
| "js_mul PInf (Fin b) = (if b = 0 then NaN else if 0 < b then PInf else NInf)"
| "js_mul NInf (Fin b) = (if b = 0 then NaN else if 0 < b then NInf else PInf)"
| "js_mul PInf PInf = PInf"
| "js_mul PInf NInf = NInf"
| "js_mul NInf PInf = NInf"
| "js_mul NInf NInf = PInf"

definition js_isNaN :: "jsnum \<Rightarrow> bool" where
  "js_isNaN v = (v = NaN)"

text \<open>The \<^verbatim>\<open><=\<close> operator on numbers; any comparison with NaN is false.\<close>

fun js_le :: "jsnum \<Rightarrow> jsnum \<Rightarrow> bool" where
  "js_le NaN _ = False"
| "js_le _ NaN = False"
| "js_le (Fin a) (Fin b) = (a \<le> b)"
| "js_le NInf _ = True"
| "js_le _ PInf = True"
| "js_le PInf _ = False"
| "js_le _ NInf = False"

text \<open>
  \<^verbatim>\<open>ToNumber\<close> of a nullable numeric column: \<^verbatim>\<open>null\<close>, which is what the
  backend returns for an empty \<^verbatim>\<open>amount\<close>, converts to 0.
\<close>

definition toNumber :: "jsnum option \<Rightarrow> jsnum" where
  "toNumber v = (case v of None \<Rightarrow> Fin 0 | Some x \<Rightarrow> x)"

text \<open>
  \<^verbatim>\<open>Number.prototype.toFixed(2)\<close> (ECMAScript 21.1.3.3). The string it returns is
  represented by what it spells: \<open>Fixed2 neg n\<close> is the sign, the digits of
  \<open>n div 100\<close>, a point and the two digits of \<open>n mod 100\<close>; \<open>Plain v\<close> is
  \<^verbatim>\<open>ToString(v)\<close>, which toFixed returns for NaN, the infinities and magnitudes from
  \<open>10\<^sup>2\<^sup>1\<close> on. For the others, \<open>n\<close> is the integer for which \<open>n / 100\<close> is closest
  to the magnitude, the larger one if there are two.
\<close>

datatype numstr = Fixed2 bool nat | Plain jsnum

definition toFixed2 :: "jsnum \<Rightarrow> numstr" where
  "toFixed2 v = (case v of
      Fin x \<Rightarrow>
        (let neg = (x < 0); y = (if neg then - x else x) in
         if 10 ^ 21 \<le> y then Plain (Fin x)
         else let f = \<lfloor>y * 100\<rfloor>;
                  n = (if y * 100 - of_int f < 1/2 then f else f + 1)
              in Fixed2 neg (nat n))
    | _ \<Rightarrow> Plain v)"

text \<open>
  \<^verbatim>\<open>Number(string)\<close> on the strings toFixed produces: a decimal literal denotes the
  double nearest to it, and \<^verbatim>\<open>ToString\<close> output reads back as the number it came
  from.
\<close>

definition js_Number :: "numstr \<Rightarrow> jsnum" where
  "js_Number s = (case s of
      Fixed2 neg n \<Rightarrow> roundToDouble ((if neg then - 1 else 1) * of_nat n / 100)
    | Plain v \<Rightarrow> v)"

section \<open>Data model (lib/types.ts)\<close>

type_synonym byte = "8 word"

text \<open>A Web Crypto \<^verbatim>\<open>CryptoKey\<close>: the raw key bytes and the extractable flag.\<close>

datatype cryptoKey = CryptoKey (key_bytes: "byte list") (extractable: bool)

datatype transactionType = Income | Expense

datatype moodType = Happy | Necessary | Impulse | Regret

record category =
  cat_id :: string
  cat_name :: string
  cat_icon :: string
  cat_color :: string
  cat_type :: transactionType
  cat_created_at :: string

record tag =
  tag_id :: string
  tag_name :: string
  tag_color :: "string option"
  tag_created_at :: string

text \<open>
  A transaction, as an in-memory object and as a row of the \<^verbatim>\<open>transactions\<close> table
  (supabase-schema.sql). The service functions build in-memory objects by spreading a
  row (\<^verbatim>\<open>{...t, amount: ...}\<close>), so one record serves both: the columns
  \<^verbatim>\<open>amount\<close>, \<^verbatim>\<open>description\<close>, \<^verbatim>\<open>notes\<close>, \<^verbatim>\<open>encrypted_data\<close>,
  \<^verbatim>\<open>iv\<close> and \<^verbatim>\<open>mood\<close> are nullable, \<open>None\<close> standing for SQL NULL, JavaScript
  \<^verbatim>\<open>null\<close> and an absent property alike; \<^verbatim>\<open>category\<close> is the joined category
  that \<^verbatim>\<open>fetchTransactions\<close> selects. The fields \<^verbatim>\<open>id\<close>, \<^verbatim>\<open>type\<close> and
  \<^verbatim>\<open>notes\<close> are written \<open>tx_id\<close>, \<open>tx_type\<close> and \<open>tx_notes\<close>.
\<close>

record transaction =
  tx_id :: string
  amount :: "jsnum option"
  tx_type :: transactionType
  date :: string
  category_id :: string
  category :: "category option"
  description :: "string option"
  mood :: "moodType option"
  tags :: "string list"
  tx_notes :: "string option"
  encrypted_data :: "string option"
  iv :: "string option"
  created_at :: string
  updated_at :: string
  user_id :: "string option"

record goal =
  goal_id :: string
  goal_name :: string
  target_amount :: "jsnum option"
  current_amount :: "jsnum option"
  target_date :: "string option"
  goal_category_id :: "string option"
  goal_description :: "string option"
  goal_created_at :: string
  goal_updated_at :: string

datatype theme = Light | Dark | System

datatype encryptionType = Password | Random_key

record userSettings =
  us_id :: string
  us_user_id :: string
  us_currency :: string
  us_date_format :: string
  us_theme :: theme
  us_encryption_enabled :: bool
  us_encryption_type :: "encryptionType option"
  us_ai_enabled :: bool
  us_created_at :: string
  us_updated_at :: string

record supabaseCredentials =
  url :: string
  anonKey :: string

text \<open>
  \<^verbatim>\<open>EncryptionConfig\<close> declares an optional \<^verbatim>\<open>key\<close> (``stored in memory only'');
  no caller ever sets it (onboarding passes \<^verbatim>\<open>{ enabled, type }\<close>).
\<close>

record encryptionConfig =
  enabled :: bool
  enc_type :: encryptionType
  enc_key :: "cryptoKey option"

section \<open>The application store (lib/store.ts)\<close>

text \<open>The state of the store; its field \<^verbatim>\<open>tags\<close> is written \<open>tags_list\<close>.\<close>

record appState =
  credentials :: "supabaseCredentials option"
  encryptionConfig :: "encryptionConfig option"
  isOnboarded :: bool
  encryptionKey :: "cryptoKey option"
  salt :: "string option"
  transactions :: "transaction list"
  categories :: "category list"
  tags_list :: "tag list"
  goals :: "goal list"
  settings :: "userSettings option"
  currency :: string
  isLoading :: bool
  error :: "string option"

definition initialState :: appState where
  "initialState = \<lparr> credentials = None, encryptionConfig = None, isOnboarded = False,
     encryptionKey = None, salt = None, transactions = [], categories = [],
     tags_list = [], goals = [], settings = None, currency = ''USD'',
     isLoading = False, error = None \<rparr>"

definition setEncryptionKey :: "cryptoKey option \<Rightarrow> appState \<Rightarrow> appState" where
  "setEncryptionKey k s = s\<lparr>encryptionKey := k\<rparr>"

definition setTransactions :: "transaction list \<Rightarrow> appState \<Rightarrow> appState" where
  "setTransactions ts s = s\<lparr>transactions := ts\<rparr>"

definition setCurrency :: "string \<Rightarrow> appState \<Rightarrow> appState" where
  "setCurrency c s = s\<lparr>currency := c\<rparr>"

definition clearCredentials :: "appState \<Rightarrow> appState" where
  "clearCredentials s = s\<lparr> credentials := None, encryptionConfig := None,
     isOnboarded := False, encryptionKey := None, salt := None, transactions := [],
     categories := [], tags_list := [], goals := [], settings := None \<rparr>"

text \<open>
  What the \<^verbatim>\<open>persist\<close> middleware writes to localStorage: the object that
  \<^verbatim>\<open>partialize\<close> returns. It has no \<^verbatim>\<open>encryptionKey\<close> property.
\<close>

record persistedState =
  p_credentials :: "supabaseCredentials option"
  p_encryptionConfig :: "encryptionConfig option"
  p_currency :: string
  p_isOnboarded :: bool
  p_salt :: "string option"

definition partialize :: "appState \<Rightarrow> persistedState" where
  "partialize state = \<lparr> p_credentials = credentials state,
     p_encryptionConfig = encryptionConfig state, p_currency = currency state,
     p_isOnboarded = isOnboarded state, p_salt = salt state \<rparr>"

section \<open>Envelope encryption (lib/encryption.ts)\<close>

subsection \<open>Base64: \<^verbatim>\<open>btoa\<close> and \<^verbatim>\<open>atob\<close>\<close>

text \<open>
  A binary string is a string whose characters are bytes, which is what an Isabelle
  \<open>char\<close> is. \<^verbatim>\<open>btoa\<close> is RFC 4648 base64 with padding; \<^verbatim>\<open>atob\<close> is the
  forgiving-base64 decoder of the WHATWG Infra standard: it drops ASCII whitespace,
  accepts the padding or its absence, fails on a length of 1 modulo 4 and on any
  character outside the alphabet, and discards the bits left over at the end.
\<close>

definition b64_alphabet :: string where
  "b64_alphabet = ''ABCDEFGHIJKLMNOPQRSTUVWXYZabcdefghijklmnopqrstuvwxyz0123456789+/''"

definition b64_char :: "nat \<Rightarrow> char" where
  "b64_char n = b64_alphabet ! n"

fun index_of :: "'a \<Rightarrow> 'a list \<Rightarrow> nat option" where
  "index_of x [] = None"
| "index_of x (y # ys) = (if x = y then Some 0 else map_option Suc (index_of x ys))"

definition b64_value :: "char \<Rightarrow> nat option" where
  "b64_value c = index_of c b64_alphabet"

fun btoa_codes :: "nat list \<Rightarrow> string" where
  "btoa_codes (a # b # c # rest) =
     b64_char (a div 4) # b64_char ((a mod 4) * 16 + b div 16)
       # b64_char ((b mod 16) * 4 + c div 64) # b64_char (c mod 64) # btoa_codes rest"
| "btoa_codes [a, b] =
     [b64_char (a div 4), b64_char ((a mod 4) * 16 + b div 16), b64_char ((b mod 16) * 4),
      CHR ''='']"
| "btoa_codes [a] = [b64_char (a div 4), b64_char ((a mod 4) * 16), CHR ''='', CHR ''='']"
| "btoa_codes [] = []"

definition btoa :: "string \<Rightarrow> string" where
  "btoa s = btoa_codes (map of_char s)"

definition ascii_whitespace :: "char \<Rightarrow> bool" where
  "ascii_whitespace c = (c \<in> set [CHR 0x09, CHR 0x0A, CHR 0x0C, CHR 0x0D, CHR 0x20])"

definition strip_padding :: "string \<Rightarrow> string" where
  "strip_padding d =
     (if length d mod 4 = 0 \<and> d \<noteq> [] \<and> last d = CHR ''='' then
        (if butlast d \<noteq> [] \<and> last (butlast d) = CHR ''='' then butlast (butlast d)
         else butlast d)
      else d)"

fun atob_values :: "nat list \<Rightarrow> nat list" where
  "atob_values (a # b # c # d # rest) =
     (a * 4 + b div 16) # ((b mod 16) * 16 + c div 4) # ((c mod 4) * 64 + d)
       # atob_values rest"
| "atob_values [a, b, c] = [a * 4 + b div 16, (b mod 16) * 16 + c div 4]"
| "atob_values [a, b] = [a * 4 + b div 16]"
| "atob_values [a] = []"
| "atob_values [] = []"

text \<open>\<open>None\<close> is the \<^verbatim>\<open>InvalidCharacterError\<close> that \<^verbatim>\<open>atob\<close> throws.\<close>

definition atob :: "string \<Rightarrow> string option" where
  "atob s =
     (let d = strip_padding (filter (\<lambda>c. \<not> ascii_whitespace c) s) in
      if length d mod 4 = 1 then None
      else case those (map b64_value d) of
             None \<Rightarrow> None
           | Some vs \<Rightarrow> Some (map char_of (atob_values vs)))"

subsection \<open>The module's helpers\<close>

definition fromCharCode :: "byte \<Rightarrow> char" where
  "fromCharCode b = char_of (unat b)"

definition charCodeAt :: "char \<Rightarrow> byte" where
  "charCodeAt c = of_nat (of_char c)"

text \<open>
  \<^verbatim>\<open>arrayBufferToBase64\<close>: the loop appends one character per byte to
  \<^verbatim>\<open>binary\<close>, then \<^verbatim>\<open>btoa\<close>.
\<close>

definition arrayBufferToBase64 :: "byte list \<Rightarrow> string" where
  "arrayBufferToBase64 buffer =
     btoa (foldl (\<lambda>binary b. binary @ [fromCharCode b]) [] buffer)"

text \<open>
  \<^verbatim>\<open>base64ToArrayBuffer\<close>: \<^verbatim>\<open>atob\<close>, then the loop stores the code of each
  character.
\<close>

definition base64ToArrayBuffer :: "string \<Rightarrow> byte list option" where
  "base64ToArrayBuffer base64 = map_option (map charCodeAt) (atob base64)"

subsection \<open>Web Crypto, JSON and the text codecs\<close>

datatype js_error =
    OperationError
  | InvalidCharacterError
  | SyntaxError
  | StoreError string
  | Error string

fun message :: "js_error \<Rightarrow> string" where
  "message (StoreError m) = m"
| "message (Error m) = m"
| "message OperationError = ''''"
| "message InvalidCharacterError = ''''"
| "message SyntaxError = ''''"

text \<open>
  The platform primitives the module calls, which are not code of this repository:
  \<^verbatim>\<open>crypto.subtle.encrypt\<close> and \<^verbatim>\<open>crypto.subtle.decrypt\<close> for AES-GCM (key, IV, data;
  decryption rejects with an OperationError, here \<open>None\<close>, when the tag does not
  verify), and \<^verbatim>\<open>JSON.stringify\<close> and \<^verbatim>\<open>JSON.parse\<close> on the plaintext type
  (\<open>None\<close> is the SyntaxError). Strings are carried as their UTF-8 bytes, so
  \<^verbatim>\<open>TextEncoder.encode\<close> and \<^verbatim>\<open>TextDecoder.decode\<close> only change the element type.
\<close>

record 'p platform =
  aes_gcm_encrypt :: "cryptoKey \<Rightarrow> byte list \<Rightarrow> byte list \<Rightarrow> byte list"
  aes_gcm_decrypt :: "cryptoKey \<Rightarrow> byte list \<Rightarrow> byte list \<Rightarrow> byte list option"
  json_stringify :: "'p \<Rightarrow> string"
  json_parse :: "string \<Rightarrow> 'p option"

definition textEncode :: "string \<Rightarrow> byte list" where
  "textEncode s = map charCodeAt s"

definition textDecode :: "byte list \<Rightarrow> string" where
  "textDecode bs = map fromCharCode bs"

record envelope =
  env_encrypted_data :: string
  env_iv :: string

text \<open>
  \<^verbatim>\<open>encrypt(data, key)\<close>; the 12 random bytes that \<^verbatim>\<open>getRandomValues\<close> returns are
  the argument \<open>iv_bytes\<close>.
\<close>

definition encrypt :: "'p platform \<Rightarrow> byte list \<Rightarrow> 'p \<Rightarrow> cryptoKey \<Rightarrow> envelope" where
  "encrypt pf iv_bytes data key =
     (let encodedData = textEncode (json_stringify pf data);
          encryptedBuffer = aes_gcm_encrypt pf key iv_bytes encodedData
      in \<lparr> env_encrypted_data = arrayBufferToBase64 encryptedBuffer,
           env_iv = arrayBufferToBase64 iv_bytes \<rparr>)"

definition decrypt :: "'p platform \<Rightarrow> string \<Rightarrow> string \<Rightarrow> cryptoKey \<Rightarrow> js_error + 'p" where
  "decrypt pf encryptedData iv_text key =
     (case base64ToArrayBuffer encryptedData of
        None \<Rightarrow> Inl InvalidCharacterError
      | Some encryptedBuffer \<Rightarrow>
     (case base64ToArrayBuffer iv_text of
        None \<Rightarrow> Inl InvalidCharacterError
      | Some ivBuffer \<Rightarrow>
     (case aes_gcm_decrypt pf key ivBuffer encryptedBuffer of
        None \<Rightarrow> Inl OperationError
      | Some decryptedBuffer \<Rightarrow>
     (case json_parse pf (textDecode decryptedBuffer) of
        None \<Rightarrow> Inl SyntaxError
      | Some v \<Rightarrow> Inr v))))"

text \<open>The sensitive subset of a transaction, the plaintext of its envelope.\<close>

record sensitive =
  s_amount :: "jsnum option"
  s_description :: "string option"
  s_notes :: "string option"

definition encryptTransaction ::
  "sensitive platform \<Rightarrow> byte list \<Rightarrow> sensitive \<Rightarrow> cryptoKey \<Rightarrow> envelope" where
  "encryptTransaction pf iv_bytes payload key = encrypt pf iv_bytes payload key"

definition decryptTransaction ::
  "sensitive platform \<Rightarrow> string \<Rightarrow> string \<Rightarrow> cryptoKey \<Rightarrow> js_error + sensitive" where
  "decryptTransaction pf encrypted_text iv_text key = decrypt pf encrypted_text iv_text key"

section \<open>The backend and the state of the application\<close>

text \<open>
  The object passed to \<^verbatim>\<open>.update(...)\<close>: each column is either absent (\<open>None\<close>) or
  given a value. \<^verbatim>\<open>Partial<Transaction>\<close>, the type of the \<^verbatim>\<open>updates\<close> argument of
  \<^verbatim>\<open>updateTransaction\<close>, has the same shape.
\<close>

record tx_patch =
  set_type :: "transactionType option"
  set_date :: "string option"
  set_category_id :: "string option"
  set_mood :: "moodType option"
  set_tags :: "string list option"
  set_amount :: "jsnum option"
  set_description :: "string option"
  set_notes :: "string option"
  set_encrypted_data :: "string option"
  set_iv :: "string option"
  set_updated_at :: "string option"

text \<open>
  A number as it reaches the backend: the body of a request is JSON, in which NaN and the
  infinities are written \<^verbatim>\<open>null\<close>.
\<close>

definition json_number :: "jsnum \<Rightarrow> jsnum option" where
  "json_number v = (case v of Fin x \<Rightarrow> Some (Fin x) | _ \<Rightarrow> None)"

definition empty_patch :: tx_patch where
  "empty_patch = \<lparr> set_type = None, set_date = None, set_category_id = None,
     set_mood = None, set_tags = None, set_amount = None, set_description = None,
     set_notes = None, set_encrypted_data = None, set_iv = None, set_updated_at = None \<rparr>"

definition apply_patch :: "tx_patch \<Rightarrow> transaction \<Rightarrow> transaction" where
  "apply_patch p r = r\<lparr>
     tx_type := (case set_type p of None \<Rightarrow> tx_type r | Some v \<Rightarrow> v),
     date := (case set_date p of None \<Rightarrow> date r | Some v \<Rightarrow> v),
     category_id := (case set_category_id p of None \<Rightarrow> category_id r | Some v \<Rightarrow> v),
     mood := (case set_mood p of None \<Rightarrow> mood r | Some v \<Rightarrow> Some v),
     tags := (case set_tags p of None \<Rightarrow> tags r | Some v \<Rightarrow> v),
     amount := (case set_amount p of None \<Rightarrow> amount r | Some v \<Rightarrow> json_number v),
     description := (case set_description p of None \<Rightarrow> description r | Some v \<Rightarrow> Some v),
     tx_notes := (case set_notes p of None \<Rightarrow> tx_notes r | Some v \<Rightarrow> Some v),
     encrypted_data :=
       (case set_encrypted_data p of None \<Rightarrow> encrypted_data r | Some v \<Rightarrow> Some v),
     iv := (case set_iv p of None \<Rightarrow> iv r | Some v \<Rightarrow> Some v),
     updated_at := (case set_updated_at p of None \<Rightarrow> updated_at r | Some v \<Rightarrow> v) \<rparr>"

text \<open>The object passed to \<^verbatim>\<open>.insert(...)\<close> by \<^verbatim>\<open>createTransaction\<close>.\<close>

record tx_insert =
  i_type :: transactionType
  i_date :: string
  i_category_id :: string
  i_mood :: "moodType option"
  i_tags :: "string list"
  i_amount :: "jsnum option"
  i_description :: "string option"
  i_notes :: "string option"
  i_encrypted_data :: "string option"
  i_iv :: "string option"

text \<open>The row the database creates: it assigns the id and both timestamps.\<close>

definition row_of_insert :: "string \<Rightarrow> string \<Rightarrow> tx_insert \<Rightarrow> transaction" where
  "row_of_insert new_id now d = \<lparr> tx_id = new_id,
     amount = (case i_amount d of None \<Rightarrow> None | Some v \<Rightarrow> json_number v), tx_type = i_type d,
     date = i_date d, category_id = i_category_id d, category = None,
     description = i_description d,
     mood = i_mood d, tags = i_tags d, tx_notes = i_notes d,
     encrypted_data = i_encrypted_data d, iv = i_iv d, created_at = now, updated_at = now,
     user_id = None \<rparr>"

text \<open>The rows of \<^verbatim>\<open>user_settings\<close>, with the columns the currency service writes.\<close>

record settingsRow =
  sr_id :: string
  sr_default_currency :: string
  sr_updated_at :: string

text \<open>The requests the services send to the backend.\<close>

datatype call =
    SelectTransactions
  | SelectTransaction string
  | InsertTransaction tx_insert
  | UpdateTransaction string tx_patch
  | UpdateUserSettings "string option" string string

text \<open>
  The world: the store, the two tables, and the log of the requests sent so far. How the
  backend answers a request is the parameter \<open>respond\<close> of every service: the message
  of the error it returns, or \<open>None\<close> when it carries the request out. The clock
  (\<^verbatim>\<open>new Date().toISOString()\<close>) is the parameter \<open>now\<close>.
\<close>

record world =
  store :: appState
  db_transactions :: "transaction list"
  db_user_settings :: "settingsRow list"
  calls :: "call list"

type_synonym backend = "call \<Rightarrow> string option"

definition db_update_transaction ::
  "backend \<Rightarrow> string \<Rightarrow> tx_patch \<Rightarrow> world \<Rightarrow> string option \<times> world" where
  "db_update_transaction respond i p w =
     (let c = UpdateTransaction i p; w1 = w\<lparr>calls := calls w @ [c]\<rparr> in
      case respond c of
        Some msg \<Rightarrow> (Some msg, w1)
      | None \<Rightarrow> (None, w1\<lparr>db_transactions :=
                   map (\<lambda>r. if tx_id r = i then apply_patch p r else r) (db_transactions w1)\<rparr>))"

definition db_update_user_settings ::
  "backend \<Rightarrow> string option \<Rightarrow> string \<Rightarrow> string \<Rightarrow> world \<Rightarrow> string option \<times> world" where
  "db_update_user_settings respond i c now w =
     (let k = UpdateUserSettings i c now; w1 = w\<lparr>calls := calls w @ [k]\<rparr> in
      case respond k of
        Some msg \<Rightarrow> (Some msg, w1)
      | None \<Rightarrow> (None, w1\<lparr>db_user_settings :=
                   map (\<lambda>r. if Some (sr_id r) = i
                             then r\<lparr>sr_default_currency := c, sr_updated_at := now\<rparr> else r)
                     (db_user_settings w1)\<rparr>))"

text \<open>\<^verbatim>\<open>.single()\<close>: the one row of the result, or an error when there is not exactly one.\<close>

definition single :: "transaction list \<Rightarrow> string + transaction" where
  "single rows = (case rows of [r] \<Rightarrow> Inr r
                  | _ \<Rightarrow> Inl ''JSON object requested, multiple (or no) rows returned'')"

text \<open>Truthiness of an optional string and of an optional number.\<close>

definition truthy_str :: "string option \<Rightarrow> bool" where
  "truthy_str v = (case v of None \<Rightarrow> False | Some s \<Rightarrow> s \<noteq> [])"

definition truthy_num :: "jsnum option \<Rightarrow> bool" where
  "truthy_num v = (case v of None \<Rightarrow> False | Some x \<Rightarrow> x \<noteq> Fin 0 \<and> x \<noteq> NaN)"

section \<open>The transactions service (lib/services/transactions.ts)\<close>

text \<open>
  The callback of \<^verbatim>\<open>data.map\<close> in \<^verbatim>\<open>fetchTransactions\<close>, under
  \<^verbatim>\<open>Promise.all\<close>: a row with an envelope is decrypted and its three sensitive
  fields replaced; any other row is returned as it is; one rejected decryption rejects
  the whole.
\<close>

fun decrypt_rows ::
  "sensitive platform \<Rightarrow> cryptoKey \<Rightarrow> transaction list \<Rightarrow> js_error + transaction list" where
  "decrypt_rows pf key [] = Inr []"
| "decrypt_rows pf key (t # ts) =
     (if truthy_str (encrypted_data t) \<and> truthy_str (iv t) then
        (case decryptTransaction pf (case encrypted_data t of Some x \<Rightarrow> x | None \<Rightarrow> [])
                (case iv t of Some x \<Rightarrow> x | None \<Rightarrow> []) key of
           Inl e \<Rightarrow> Inl e
         | Inr decrypted \<Rightarrow>
             (case decrypt_rows pf key ts of
                Inl e \<Rightarrow> Inl e
              | Inr rest \<Rightarrow>
                  Inr (t\<lparr>amount := s_amount decrypted, description := s_description decrypted,
                         tx_notes := s_notes decrypted\<rparr> # rest)))
      else (case decrypt_rows pf key ts of Inl e \<Rightarrow> Inl e | Inr rest \<Rightarrow> Inr (t # rest)))"

text \<open>
  \<^verbatim>\<open>fetchTransactions(encryptionKey)\<close>. The rows come in the order the backend
  returns them.
\<close>

definition fetchTransactions ::
  "sensitive platform \<Rightarrow> backend \<Rightarrow> cryptoKey option \<Rightarrow> world
     \<Rightarrow> (js_error + transaction list) \<times> world" where
  "fetchTransactions pf respond encryptionKey' w =
     (let w1 = w\<lparr>calls := calls w @ [SelectTransactions]\<rparr> in
      case respond SelectTransactions of
        Some msg \<Rightarrow> (Inl (StoreError msg), w1)
      | None \<Rightarrow>
          (let data = db_transactions w1 in
           case encryptionKey' of
             Some key \<Rightarrow> (decrypt_rows pf key data, w1)
           | None \<Rightarrow> (Inr data, w1)))"

text \<open>
  \<^verbatim>\<open>createTransaction(transaction, encryptionKey)\<close>. Of the argument, the id and the
  timestamps are not read (its type omits them); \<open>new_id\<close> is the id the database
  generates.
\<close>

definition createTransaction ::
  "sensitive platform \<Rightarrow> backend \<Rightarrow> byte list \<Rightarrow> string \<Rightarrow> string \<Rightarrow> transaction
     \<Rightarrow> cryptoKey option \<Rightarrow> world \<Rightarrow> (js_error + transaction) \<times> world" where
  "createTransaction pf respond iv_bytes new_id now t encryptionKey' w =
     (let dataToInsert0 = \<lparr> i_type = tx_type t, i_date = date t,
            i_category_id = category_id t, i_mood = mood t, i_tags = tags t,
            i_amount = None, i_description = None, i_notes = None,
            i_encrypted_data = None, i_iv = None \<rparr>;
          dataToInsert =
            (case encryptionKey' of
               Some key \<Rightarrow>
                 (let e = encryptTransaction pf iv_bytes
                            \<lparr> s_amount = amount t, s_description = description t,
                              s_notes = tx_notes t \<rparr> key
                  in dataToInsert0\<lparr> i_encrypted_data := Some (env_encrypted_data e),
                                     i_iv := Some (env_iv e) \<rparr>)
             | None \<Rightarrow>
                 dataToInsert0\<lparr> i_amount := amount t, i_description := description t,
                                 i_notes := tx_notes t \<rparr>);
          c = InsertTransaction dataToInsert;
          w1 = w\<lparr>calls := calls w @ [c]\<rparr>
      in case respond c of
           Some msg \<Rightarrow> (Inl (StoreError msg), w1)
         | None \<Rightarrow>
             (let data = row_of_insert new_id now dataToInsert in
              (Inr (data\<lparr>amount := amount t, description := description t,
                          tx_notes := tx_notes t\<rparr>),
               w1\<lparr>db_transactions := db_transactions w1 @ [data]\<rparr>)))"

text \<open>
  \<^verbatim>\<open>updateTransaction(id, updates, encryptionKey)\<close>. First the part that builds
  \<^verbatim>\<open>dataToUpdate\<close> from the fields that are always clear; each \<^verbatim>\<open>if (updates.x)\<close>
  tests truthiness, so an empty string does not count.
\<close>

definition clear_fields_patch :: "tx_patch \<Rightarrow> tx_patch" where
  "clear_fields_patch updates = empty_patch\<lparr>
     set_type := set_type updates,
     set_date := (if truthy_str (set_date updates) then set_date updates else None),
     set_category_id :=
       (if truthy_str (set_category_id updates) then set_category_id updates else None),
     set_mood := set_mood updates,
     set_tags := set_tags updates \<rparr>"

text \<open>
  The branch taken with a key and a truthy sensitive update: read the current row,
  decrypt its envelope if it has one, merge, encrypt the whole sensitive subset. The
  result is the new \<^verbatim>\<open>dataToUpdate\<close>, or the error a failed decryption throws.
\<close>

definition merge_encrypted ::
  "sensitive platform \<Rightarrow> byte list \<Rightarrow> cryptoKey \<Rightarrow> tx_patch \<Rightarrow> transaction option
     \<Rightarrow> tx_patch \<Rightarrow> js_error + tx_patch" where
  "merge_encrypted pf iv_bytes key updates current dataToUpdate =
     (case current of
        None \<Rightarrow> Inr dataToUpdate
      | Some cur \<Rightarrow>
          (let currentData =
                 (if truthy_str (encrypted_data cur) \<and> truthy_str (iv cur) then
                    (case decryptTransaction pf
                            (case encrypted_data cur of Some x \<Rightarrow> x | None \<Rightarrow> [])
                            (case iv cur of Some x \<Rightarrow> x | None \<Rightarrow> []) key of
                       Inl e \<Rightarrow> Inl e
                     | Inr decrypted \<Rightarrow>
                         Inr \<lparr> s_amount =
                                 (case s_amount decrypted of None \<Rightarrow> Some (Fin 0)
                                  | Some a \<Rightarrow> Some a),
                               s_description =
                                 (case s_description decrypted of None \<Rightarrow> Some []
                                  | Some d \<Rightarrow> Some d),
                               s_notes =
                                 (case s_notes decrypted of None \<Rightarrow> Some []
                                  | Some n \<Rightarrow> Some n) \<rparr>)
                  else Inr \<lparr> s_amount = Some (Fin 0), s_description = Some [],
                             s_notes = Some [] \<rparr>)
           in case currentData of
                Inl e \<Rightarrow> Inl e
              | Inr cd \<Rightarrow>
                  (let mergedData =
                         \<lparr> s_amount = (case set_amount updates of None \<Rightarrow> s_amount cd
                                        | Some a \<Rightarrow> Some a),
                           s_description = (case set_description updates of
                                              None \<Rightarrow> s_description cd | Some d \<Rightarrow> Some d),
                           s_notes = (case set_notes updates of None \<Rightarrow> s_notes cd
                                      | Some n \<Rightarrow> Some n) \<rparr>;
                       e = encryptTransaction pf iv_bytes mergedData key
                   in Inr (dataToUpdate\<lparr> set_encrypted_data := Some (env_encrypted_data e),
                                          set_iv := Some (env_iv e) \<rparr>))))"

definition updateTransaction ::
  "sensitive platform \<Rightarrow> backend \<Rightarrow> byte list \<Rightarrow> string \<Rightarrow> tx_patch \<Rightarrow> cryptoKey option
     \<Rightarrow> world \<Rightarrow> (js_error + transaction) \<times> world" where
  "updateTransaction pf respond iv_bytes i updates encryptionKey' w =
     (let dataToUpdate0 = clear_fields_patch updates;
          (built, w1) =
            (case encryptionKey' of
               Some key \<Rightarrow>
                 if truthy_num (set_amount updates) \<or> truthy_str (set_description updates)
                      \<or> truthy_str (set_notes updates)
                 then
                   (let w' = w\<lparr>calls := calls w @ [SelectTransaction i]\<rparr>;
                        current =
                          (case respond (SelectTransaction i) of
                             Some msg \<Rightarrow> None
                           | None \<Rightarrow>
                               (case single (filter (\<lambda>r. tx_id r = i) (db_transactions w')) of
                                  Inl msg \<Rightarrow> None | Inr r \<Rightarrow> Some r))
                    in (merge_encrypted pf iv_bytes key updates current dataToUpdate0, w'))
                 else
                   (Inr (dataToUpdate0\<lparr> set_amount := set_amount updates,
                                          set_description := set_description updates,
                                          set_notes := set_notes updates \<rparr>), w)
             | None \<Rightarrow>
                 (Inr (dataToUpdate0\<lparr> set_amount := set_amount updates,
                                        set_description := set_description updates,
                                        set_notes := set_notes updates \<rparr>), w))
      in case built of
           Inl e \<Rightarrow> (Inl e, w1)
         | Inr dataToUpdate \<Rightarrow>
             (case db_update_transaction respond i dataToUpdate w1 of
                (Some msg, w2) \<Rightarrow> (Inl (StoreError msg), w2)
              | (None, w2) \<Rightarrow>
                  (case single (filter (\<lambda>r. tx_id r = i) (db_transactions w2)) of
                     Inl msg \<Rightarrow> (Inl (StoreError msg), w2)
                   | Inr data \<Rightarrow> (Inr data, w2))))"

section \<open>The currency service (lib/services/currency.ts)\<close>

definition convertTransactionsCurrency :: "transaction list \<Rightarrow> jsnum \<Rightarrow> transaction list" where
  "convertTransactionsCurrency ts conversionRate =
     map (\<lambda>t. t\<lparr>amount :=
                  Some (js_Number (toFixed2 (js_mul (toNumber (amount t)) conversionRate)))\<rparr>) ts"

text \<open>
  \<^verbatim>\<open>convertedTransactions.map(...)\<close> sends one update per transaction, each
  writing \<^verbatim>\<open>amount\<close> and \<^verbatim>\<open>updated_at\<close>; \<^verbatim>\<open>Promise.all\<close> collects the results.
  A failed request resolves to a result with an error (the client does not throw), so
  every request is sent and every result collected.
\<close>

definition amount_patch :: "jsnum option \<Rightarrow> string \<Rightarrow> tx_patch" where
  "amount_patch a now = empty_patch\<lparr> set_amount := a, set_updated_at := Some now \<rparr>"

fun update_all :: "backend \<Rightarrow> string \<Rightarrow> transaction list \<Rightarrow> world \<Rightarrow> string option list \<times> world" where
  "update_all respond now [] w = ([], w)"
| "update_all respond now (t # ts) w =
     (let (r, w1) = db_update_transaction respond (tx_id t) (amount_patch (amount t) now) w;
          (rs, w2) = update_all respond now ts w1
      in (r # rs, w2))"

definition updateTransactionsCurrencyInDB ::
  "backend \<Rightarrow> string \<Rightarrow> string \<Rightarrow> string \<Rightarrow> jsnum \<Rightarrow> world \<Rightarrow> (js_error + unit) \<times> world" where
  "updateTransactionsCurrencyInDB respond now oldCurrency newCurrency conversionRate w =
     (let ts = transactions (store w) in
      if length ts = 0 then (Inr (), w)
      else
        (let convertedTransactions = convertTransactionsCurrency ts conversionRate;
             (results, w1) = update_all respond now convertedTransactions w
         in case find (\<lambda>result. result \<noteq> None) results of
              Some (Some msg) \<Rightarrow> (Inl (Error (''Failed to update transactions: '' @ msg)), w1)
            | _ \<Rightarrow>
                (let (settingsError, w2) =
                       db_update_user_settings respond (map_option us_id (settings (store w)))
                         newCurrency now w1
                 in (Inr (), w2\<lparr>store :=
                       setCurrency newCurrency (setTransactions convertedTransactions (store w2))\<rparr>))))"

definition updateCurrencyWithoutConversion ::
  "backend \<Rightarrow> string \<Rightarrow> string \<Rightarrow> string \<Rightarrow> world \<Rightarrow> (js_error + unit) \<times> world" where
  "updateCurrencyWithoutConversion respond now oldCurrency newCurrency w =
     (case db_update_user_settings respond (map_option us_id (settings (store w)))
             newCurrency now w of
        (Some msg, w1) \<Rightarrow> (Inl (Error (''Failed to update user settings: '' @ msg)), w1)
      | (None, w1) \<Rightarrow> (Inr (), w1\<lparr>store := setCurrency newCurrency (store w1)\<rparr>))"

section \<open>The settings page and the currency dialog\<close>

text \<open>The state of the settings page (app/dashboard/settings/page.tsx).\<close>

record pageState =
  pendingCurrency :: "string option"
  showCurrencyChangeDialog :: bool
  page_loading :: bool
  page_error :: "string option"

text \<open>
  The page's \<^verbatim>\<open>handleConvert(conversionRate)\<close> and \<^verbatim>\<open>handleKeepAsIs()\<close>: nothing
  without a pending currency; otherwise the service runs, from the store's current
  currency to the pending one, and an exception becomes the page's error message.
\<close>

definition page_handleConvert ::
  "backend \<Rightarrow> string \<Rightarrow> jsnum \<Rightarrow> pageState \<times> world \<Rightarrow> pageState \<times> world" where
  "page_handleConvert respond now conversionRate pw =
     (case pw of (p, w) \<Rightarrow>
        if \<not> truthy_str (pendingCurrency p) then (p, w)
        else
          (let p1 = p\<lparr>page_loading := True, page_error := None\<rparr>;
               newCurrency = (case pendingCurrency p of Some c \<Rightarrow> c | None \<Rightarrow> [])
           in case updateTransactionsCurrencyInDB respond now (currency (store w)) newCurrency
                     conversionRate w of
                (Inr u, w1) \<Rightarrow> (p1\<lparr>pendingCurrency := None, page_loading := False\<rparr>, w1)
              | (Inl err, w1) \<Rightarrow>
                  (p1\<lparr>page_error := Some (message err), page_loading := False\<rparr>, w1)))"

definition page_handleKeepAsIs ::
  "backend \<Rightarrow> string \<Rightarrow> pageState \<times> world \<Rightarrow> pageState \<times> world" where
  "page_handleKeepAsIs respond now pw =
     (case pw of (p, w) \<Rightarrow>
        if \<not> truthy_str (pendingCurrency p) then (p, w)
        else
          (let p1 = p\<lparr>page_loading := True, page_error := None\<rparr>;
               newCurrency = (case pendingCurrency p of Some c \<Rightarrow> c | None \<Rightarrow> [])
           in case updateCurrencyWithoutConversion respond now (currency (store w)) newCurrency
                     w of
                (Inr u, w1) \<Rightarrow> (p1\<lparr>pendingCurrency := None, page_loading := False\<rparr>, w1)
              | (Inl err, w1) \<Rightarrow>
                  (p1\<lparr>page_error := Some (message err), page_loading := False\<rparr>, w1)))"

text \<open>The page's \<^verbatim>\<open>onClose\<close> callback for the dialog.\<close>

definition page_onClose :: "pageState \<Rightarrow> pageState" where
  "page_onClose p = p\<lparr>showCurrencyChangeDialog := False, pendingCurrency := None\<rparr>"

text \<open>The state of the currency dialog (components/currency-change-dialog.tsx).\<close>

datatype dialogAction = Keep | Convert

record dialogState =
  dlg_action :: "dialogAction option"
  conversionRate_text :: string
  dlg_loading :: bool
  dlg_error :: string

text \<open>
  The dialog's \<^verbatim>\<open>handleConvert\<close>. \<open>parseFloat\<close> is the platform's function of that
  name; \<open>onConvert\<close> and \<open>onClose\<close> are the callbacks the page passes in, acting on
  the state outside the dialog.
\<close>

definition dialog_handleConvert ::
  "(string \<Rightarrow> jsnum) \<Rightarrow> (jsnum \<Rightarrow> 's \<Rightarrow> 's) \<Rightarrow> ('s \<Rightarrow> 's) \<Rightarrow> dialogState \<times> 's
     \<Rightarrow> dialogState \<times> 's" where
  "dialog_handleConvert parseFloat onConvert onClose ds =
     (case ds of (d, s) \<Rightarrow>
        (let d1 = d\<lparr>dlg_loading := True, dlg_error := []\<rparr>;
             rate = parseFloat (conversionRate_text d1)
         in if js_isNaN rate \<or> js_le rate (Fin 0) then
              (d1\<lparr>dlg_error := ''Please enter a valid conversion rate greater than 0'',
                   dlg_loading := False\<rparr>, s)
            else
              (d1\<lparr>dlg_action := None, conversionRate_text := ''1.0'', dlg_loading := False\<rparr>,
               onClose (onConvert rate s))))"

text \<open>
  The dialog as the settings page mounts it: \<^verbatim>\<open>onConvert={handleConvert}\<close> and the
  page's \<^verbatim>\<open>onClose\<close>, which acts on the page state only.
\<close>

definition convert ::
  "(string \<Rightarrow> jsnum) \<Rightarrow> backend \<Rightarrow> string \<Rightarrow> dialogState \<times> pageState \<times> world
     \<Rightarrow> dialogState \<times> pageState \<times> world" where
  "convert parseFloat respond now =
     dialog_handleConvert parseFloat (page_handleConvert respond now)
       (\<lambda>pw. case pw of (p, w) \<Rightarrow> (page_onClose p, w))"

section \<open>Describing what the services do\<close>

text \<open>
  A row with its \<^verbatim>\<open>amount\<close> and \<^verbatim>\<open>updated_at\<close> columns blanked: two rows with the
  same image agree on every other column.
\<close>

definition other_columns :: "transaction \<Rightarrow> transaction" where
  "other_columns r = r\<lparr>amount := None, updated_at := []\<rparr>"

text \<open>The request the conversion sends for one converted transaction.\<close>

definition convert_call :: "string \<Rightarrow> transaction \<Rightarrow> call" where
  "convert_call now t = UpdateTransaction (tx_id t) (amount_patch (amount t) now)"

text \<open>
  The table after a batch of such requests: the patch of every request the backend
  carried out, applied in order; the others leave no trace.
\<close>

definition apply_successful ::
  "backend \<Rightarrow> string \<Rightarrow> transaction list \<Rightarrow> transaction list \<Rightarrow> transaction list" where
  "apply_successful respond now ts rows =
     foldl (\<lambda>rows t. if respond (convert_call now t) = None
                      then map (\<lambda>r. if tx_id r = tx_id t
                                     then apply_patch (amount_patch (amount t) now) r else r) rows
                      else rows) rows ts"

text \<open>The number of requests in a log that a backend carried out.\<close>

definition succeeded :: "backend \<Rightarrow> call list \<Rightarrow> nat" where
  "succeeded respond cs = length (filter (\<lambda>c. respond c = None) cs)"

text \<open>
  The two shapes of a stored row: clear sensitive fields, or the envelope. A row is
  exclusive when it does not carry both.
\<close>

definition has_clear :: "transaction \<Rightarrow> bool" where
  "has_clear r = (\<not> (amount r = None \<and> description r = None \<and> tx_notes r = None))"

definition has_envelope :: "transaction \<Rightarrow> bool" where
  "has_envelope r = (\<not> (encrypted_data r = None \<and> iv r = None))"

definition exclusive_row :: "transaction \<Rightarrow> bool" where
  "exclusive_row r = (\<not> (has_clear r \<and> has_envelope r))"

section \<open>Example data\<close>

definition example_now :: string where
  "example_now = ''2024-02-01T00:00:00.000Z''"

definition example_clear_tx :: "string \<Rightarrow> jsnum \<Rightarrow> transaction" where
  "example_clear_tx i a = \<lparr> tx_id = i, amount = Some a, tx_type = Expense,
     date = ''2024-01-15'', category_id = ''c1'', category = None,
     description = Some ''lunch'', mood = None,
     tags = [], tx_notes = None, encrypted_data = None, iv = None,
     created_at = ''2024-01-15T12:00:00.000Z'', updated_at = ''2024-01-15T12:00:00.000Z'',
     user_id = None \<rparr>"

text \<open>
  A key, an IV and a payload, with the platform's functions tabulated at them: the
  ciphertext is the output of AES-256-GCM (data followed by the 16-byte tag) for this key,
  this IV and the UTF-8 bytes of the JSON text, as any implementation gives it, and the
  JSON text is what \<^verbatim>\<open>JSON.stringify\<close> gives for the payload. Decryption under the other
  key is rejected. The table says nothing about other inputs.
\<close>

definition example_key :: cryptoKey where
  "example_key =
     CryptoKey [0, 1, 2, 3, 4, 5, 6, 7, 8, 9, 10, 11, 12, 13, 14, 15, 16, 17, 18, 19, 20, 21,
                22, 23, 24, 25, 26, 27, 28, 29, 30, 31] True"

definition example_other_key :: cryptoKey where
  "example_other_key =
     CryptoKey [9, 9, 9, 9, 9, 9, 9, 9, 9, 9, 9, 9, 9, 9, 9, 9, 9, 9, 9, 9, 9, 9, 9, 9, 9, 9,
                9, 9, 9, 9, 9, 9] True"

definition example_iv :: "byte list" where
  "example_iv = [2, 3, 4, 5, 6, 7, 8, 9, 10, 11, 12, 13]"

definition example_payload :: sensitive where
  "example_payload =
     \<lparr> s_amount = Some (Fin (85 / 2)), s_description = Some ''lunch'', s_notes = None \<rparr>"

definition example_json :: string where
  "example_json =
     [CHR ''{'', CHR 0x22] @ ''amount'' @ [CHR 0x22] @ '':42.5,'' @ [CHR 0x22] @ ''description''
       @ [CHR 0x22, CHR '':'', CHR 0x22] @ ''lunch'' @ [CHR 0x22, CHR ''}'']"

definition example_ciphertext :: "byte list" where
  "example_ciphertext =
     [18, 228, 197, 172, 22, 15, 177, 198, 128, 67, 23, 9, 37, 119, 209, 66, 216, 158, 196,
      89, 216, 126, 123, 241, 223, 54, 158, 191, 57, 161, 174, 66, 206, 48, 196, 60, 63, 163,
      11, 94, 238, 181, 95, 79, 202, 111, 39, 207, 7, 172, 132, 59, 196]"

definition example_platform :: "sensitive platform" where
  "example_platform =
     \<lparr> aes_gcm_encrypt =
         (\<lambda>k n m. if k = example_key \<and> n = example_iv \<and> m = textEncode example_json
                  then example_ciphertext else []),
       aes_gcm_decrypt =
         (\<lambda>k n c. if k = example_key \<and> n = example_iv \<and> c = example_ciphertext
                  then Some (textEncode example_json) else None),
       json_stringify = (\<lambda>p. if p = example_payload then example_json else []),
       json_parse = (\<lambda>t. if t = example_json then Some example_payload else None) \<rparr>"

text \<open>
  A row written with that key: no clear sensitive field, and the envelope of the payload
  above under the IV above.
\<close>

definition example_encrypted_row :: "string \<Rightarrow> transaction" where
  "example_encrypted_row i = \<lparr> tx_id = i, amount = None, tx_type = Expense,
     date = ''2024-01-15'', category_id = ''c1'', category = None, description = None,
     mood = None, tags = [], tx_notes = None,
     encrypted_data =
       Some ''EuTFrBYPscaAQxcJJXfRQtiexFnYfnvx3zaevzmhrkLOMMQ8P6MLXu61X0/KbyfPB6yEO8Q='',
     iv = Some ''AgMEBQYHCAkKCwwN'',
     created_at = ''2024-01-15T12:00:00.000Z'', updated_at = ''2024-01-15T12:00:00.000Z'',
     user_id = None \<rparr>"

definition example_world :: "transaction list \<Rightarrow> transaction list \<Rightarrow> world" where
  "example_world in_memory rows =
     \<lparr> store = initialState\<lparr>transactions := in_memory, isOnboarded := True\<rparr>,
       db_transactions = rows, db_user_settings = [], calls = [] \<rparr>"

text \<open>Three clear transactions, in the store and in the table.\<close>

definition example_three :: world where
  "example_three =
     example_world
       [example_clear_tx ''a'' (Fin 1), example_clear_tx ''b'' (Fin 2), example_clear_tx ''c'' (Fin 3)]
       [example_clear_tx ''a'' (Fin 1), example_clear_tx ''b'' (Fin 2), example_clear_tx ''c'' (Fin 3)]"

text \<open>Backends that reject the update of one row, or of two, and carry out the rest.\<close>

definition example_fail_b :: backend where
  "example_fail_b c = (case c of UpdateTransaction i p \<Rightarrow> if i = ''b'' then Some ''boom'' else None
                       | _ \<Rightarrow> None)"

definition example_fail_b_c :: backend where
  "example_fail_b_c c =
     (case c of UpdateTransaction i p \<Rightarrow> if i = ''b'' \<or> i = ''c'' then Some ''boom'' else None
      | _ \<Rightarrow> None)"

text \<open>
  Encryption enabled and no key in memory (the state after a reload), with one
  encrypted row in the table.
\<close>

definition example_locked :: world where
  "example_locked =
     \<lparr> store = initialState\<lparr>
         encryptionConfig := Some \<lparr>enabled = True, enc_type = Password, enc_key = None\<rparr>,
         isOnboarded := True\<rparr>,
       db_transactions = [example_encrypted_row ''t1''], db_user_settings = [], calls = [] \<rparr>"

text \<open>
  Encryption enabled and the key in memory: the store holds the decrypted projection of
  the encrypted row.
\<close>

definition example_unlocked :: world where
  "example_unlocked =
     \<lparr> store = initialState\<lparr>
         encryptionConfig := Some \<lparr>enabled = True, enc_type = Password, enc_key = None\<rparr>,
         encryptionKey := Some example_key,
         transactions := [(example_encrypted_row ''t1'')\<lparr>amount := Some (Fin (85 / 2)),
                            description := Some ''lunch''\<rparr>],
         isOnboarded := True\<rparr>,
       db_transactions = [example_encrypted_row ''t1''], db_user_settings = [], calls = [] \<rparr>"


text \<open>What \<^verbatim>\<open>parseFloat\<close> returns on four inputs of the rate field.\<close>

definition example_parseFloat :: "string \<Rightarrow> jsnum" where
  "example_parseFloat s =
     (if s = ''0'' then Fin 0 else if s = ''-5'' then Fin (- 5)
      else if s = ''Infinity'' then PInf else NaN)"

definition example_dialog :: "string \<Rightarrow> dialogState" where
  "example_dialog text = \<lparr> dlg_action = Some Convert, conversionRate_text = text,
     dlg_loading = False, dlg_error = [] \<rparr>"

definition example_page :: pageState where
  "example_page = \<lparr> pendingCurrency = Some ''EUR'', showCurrencyChangeDialog = True,
     page_loading = False, page_error = None \<rparr>"

section \<open>Auxiliary functions for base64\<close>

text \<open>
  The 6-bit values that \<^verbatim>\<open>btoa\<close> emits for a list of byte codes, and the padding it
  appends: \<^verbatim>\<open>btoa\<close>'s output is the characters of the former followed by the latter.
\<close>

fun b64_body :: "nat list \<Rightarrow> nat list" where
  "b64_body (a # b # c # rest) =
     a div 4 # ((a mod 4) * 16 + b div 16) # ((b mod 16) * 4 + c div 64) # c mod 64
       # b64_body rest"
| "b64_body [a, b] = [a div 4, (a mod 4) * 16 + b div 16, (b mod 16) * 4]"
| "b64_body [a] = [a div 4, (a mod 4) * 16]"
| "b64_body [] = []"

fun b64_pad :: "nat list \<Rightarrow> string" where
  "b64_pad (a # b # c # rest) = b64_pad rest"
| "b64_pad [a, b] = [CHR ''='']"
| "b64_pad [a] = [CHR ''='', CHR ''='']"
| "b64_pad [] = []"

section \<open>Describing numbers\<close>

text \<open>
  The finite doubles: \<open>n \<sqdot> 2\<^sup>e\<^sup>-\<^sup>5\<^sup>2\<close> with \<open>\<bar>n\<bar> < 2\<^sup>5\<^sup>3\<close> and \<open>e\<close> from -1022 to 1023.
\<close>

definition is_double :: "rat \<Rightarrow> bool" where
  "is_double x = (\<exists>n e. x = of_int n * 2 powi (e - 52) \<and> \<bar>n\<bar> < 2 ^ 53 \<and> - 1022 \<le> e \<and> e \<le> 1023)"

text \<open>
  Rounding to two decimal places, half away from zero, as the specification words it:
  the magnitude is rounded to the nearest hundredth, a tie goes up, and the sign is put
  back.
\<close>

definition round_half_away_2dp :: "rat \<Rightarrow> rat" where
  "round_half_away_2dp x = sgn x * of_int \<lfloor>\<bar>x\<bar> * 100 + 1/2\<rfloor> / 100"

section \<open>Rounding to doubles\<close>

lemma ilog2_bounds:
  assumes "q \<noteq> 0"
  shows "2 powi (ilog2 q) \<le> \<bar>q\<bar> \<and> \<bar>q\<bar> < 2 powi (ilog2 q + 1)"
proof (cases "1 \<le> \<bar>q\<bar>")
  case True
  define m where "m = \<lfloor>\<bar>q\<bar>\<rfloor>"
  have m1: "1 \<le> m" using True by (simp add: m_def le_floor_iff)
  have bl: "1 \<le> bitlen m" using m1 by (simp add: bitlen_alt_def)
  have e: "ilog2 q = bitlen m - 1" using True by (simp add: ilog2_def m_def)
  from bitlen_bounds [of m] m1
  have lo: "2 ^ nat (bitlen m - 1) \<le> m" and hi: "m < 2 ^ nat (bitlen m)" by simp_all
  have "rat_of_int (2 ^ nat (bitlen m - 1)) \<le> rat_of_int m"
    using lo by (simp only: of_int_le_iff)
  also have "rat_of_int m \<le> \<bar>q\<bar>" by (simp add: m_def)
  finally have A: "2 powi (ilog2 q) \<le> \<bar>q\<bar>"
    using bl by (simp add: e power_int_nonneg_exp)
  have "m + 1 \<le> 2 ^ nat (bitlen m)" using hi by simp
  then have "rat_of_int (m + 1) \<le> rat_of_int (2 ^ nat (bitlen m))"
    by (simp only: of_int_le_iff)
  moreover have "\<bar>q\<bar> < rat_of_int (m + 1)"
    using floor_correct [of "\<bar>q\<bar>"] by (simp add: m_def)
  ultimately have B: "\<bar>q\<bar> < 2 powi (ilog2 q + 1)"
    using bl by (simp add: e power_int_nonneg_exp)
  from A B show ?thesis by simp
next
  case False
  then have q1: "\<bar>q\<bar> < 1" by simp
  have qpos: "0 < \<bar>q\<bar>" using assms by simp
  define N where "N = \<lceil>1 / \<bar>q\<bar>\<rceil>"
  have inv: "1 < 1 / \<bar>q\<bar>" using q1 qpos by simp
  have N2: "2 \<le> N" using inv by (simp add: N_def le_ceiling_iff)  
  define k where "k = bitlen (N - 1)"
  have k1: "1 \<le> k" using N2 by (simp add: k_def bitlen_alt_def)
  have e: "ilog2 q = - k" using False by (simp add: ilog2_def N_def k_def)
  from bitlen_bounds [of "N - 1"] N2
  have lo: "2 ^ nat (k - 1) \<le> N - 1" and hi: "N - 1 < 2 ^ nat k" by (simp_all add: k_def)
  have "1 / \<bar>q\<bar> \<le> rat_of_int N" by (simp add: N_def)
  also have "rat_of_int N \<le> rat_of_int (2 ^ nat k)" using hi by (simp only: of_int_le_iff)
  finally have "1 / \<bar>q\<bar> \<le> 2 ^ nat k" by simp
  then have "1 \<le> 2 ^ nat k * \<bar>q\<bar>" using qpos by (simp add: field_simps)
  then have A: "2 powi (ilog2 q) \<le> \<bar>q\<bar>"
    using k1 by (simp add: e power_int_minus power_int_nonneg_exp field_simps)
  have "rat_of_int (2 ^ nat (k - 1)) \<le> rat_of_int (N - 1)" using lo by (simp only: of_int_le_iff)
  moreover have "rat_of_int (N - 1) < 1 / \<bar>q\<bar>" 
    using ceiling_correct [of "1 / \<bar>q\<bar>"] by (simp add: N_def)
  ultimately have "2 ^ nat (k - 1) < 1 / \<bar>q\<bar>" by simp
  then have lt: "\<bar>q\<bar> < 1 / 2 ^ nat (k - 1)" using qpos by (simp add: field_simps)
  have pw: "(2::rat) powi (ilog2 q + 1) = 1 / 2 ^ nat (k - 1)"
  proof -
    have "ilog2 q + 1 = - (k - 1)" by (simp add: e)
    then have "(2::rat) powi (ilog2 q + 1) = 2 powi (- (k - 1))" by (simp only:)
    also have "\<dots> = 1 / 2 powi (k - 1)" by (rule power_int_minus_divide)
    also have "(2::rat) powi (k - 1) = 2 ^ nat (k - 1)"
      using k1 by (simp add: power_int_nonneg_exp)
    finally show ?thesis .
  qed
  have B: "\<bar>q\<bar> < 2 powi (ilog2 q + 1)" unfolding pw using lt .
  from A B show ?thesis by simp
qed

lemma ilog2_unique:
  assumes "2 powi e \<le> \<bar>q\<bar>" and "\<bar>q\<bar> < 2 powi (e + 1)"
  shows "ilog2 q = e"
proof -
  have "(0::rat) < 2 powi e" by simp
  with assms(1) have "0 < \<bar>q\<bar>" by linarith
  then have "q \<noteq> 0" by simp
  from ilog2_bounds [OF this]
  have lo: "2 powi (ilog2 q) \<le> \<bar>q\<bar>" and hi: "\<bar>q\<bar> < 2 powi (ilog2 q + 1)" by simp_all
  have "(2::rat) powi e < 2 powi (ilog2 q + 1)" using assms(1) hi by simp
  then have a: "e < ilog2 q + 1"
    using power_int_increasing [of "ilog2 q + 1" e "2::rat"] by (cases "e < ilog2 q + 1") auto
  have "(2::rat) powi (ilog2 q) < 2 powi (e + 1)" using assms(2) lo by simp
  then have b: "ilog2 q < e + 1"
    using power_int_increasing [of "e + 1" "ilog2 q" "2::rat"] by (cases "ilog2 q < e + 1") auto
  from a b show ?thesis by simp
qed


lemma round_half_even_of_int: "round_half_even (of_int n) = n"
  by (simp add: round_half_even_def)

lemma round_half_even_near:
  assumes "\<bar>m - of_int n\<bar> < 1/2"
  shows "round_half_even m = n"
proof -
  have lo: "of_int n - 1/2 < m" and hi: "m < of_int n + 1/2" using assms by linarith+
  consider "of_int n \<le> m" | "m < of_int n" by linarith
  then show ?thesis
  proof cases
    case 1
    then have f: "\<lfloor>m\<rfloor> = n" using hi by (intro floor_unique) linarith+
    then show ?thesis using hi by (simp add: round_half_even_def Let_def)
  next
    case 2
    then have f: "\<lfloor>m\<rfloor> = n - 1" using lo by (intro floor_unique) (simp_all, linarith?)
    then show ?thesis using lo 2 by (simp add: round_half_even_def Let_def)
  qed
qed

lemma round_half_even_le:
  assumes "m \<le> of_int N"
  shows "round_half_even m \<le> N"
proof (cases "m = of_int N")
  case True
  then show ?thesis by (simp add: round_half_even_of_int)
next
  case False
  then have "m < of_int N" using assms by simp
  then have "\<lfloor>m\<rfloor> < N" by (simp add: floor_less_iff)
  then have "\<lfloor>m\<rfloor> + 1 \<le> N" by simp
  then show ?thesis by (simp add: round_half_even_def Let_def)
qed

lemma round_half_even_ge:
  assumes "of_int N \<le> m"
  shows "N \<le> round_half_even m"
proof -
  have "N \<le> \<lfloor>m\<rfloor>" using assms by (simp add: le_floor_iff)
  then show ?thesis by (simp add: round_half_even_def Let_def)
qed

lemma roundToDouble_eqI:
  assumes "2 powi e \<le> \<bar>q\<bar>" and "\<bar>q\<bar> < 2 powi (e + 1)" and "- 1022 \<le> e" and "e < 1023"
    and "\<bar>\<bar>q\<bar> / 2 powi (e - 52) - of_int n\<bar> < 1/2"
  shows "roundToDouble q = Fin (sgn q * (of_int n * 2 powi (e - 52)))"
proof -
  have "(0::rat) < 2 powi e" by simp
  with assms(1) have "0 < \<bar>q\<bar>" by linarith
  then have q0: "q \<noteq> 0" by simp
  have e: "ilog2 q = e" using assms(1,2) by (rule ilog2_unique)
  have m: "max e (- 1022) = e" using assms(3) by simp
  have r: "round_half_even (\<bar>q\<bar> / 2 powi (e - 52)) = n"
    using assms(5) by (rule round_half_even_near)
  show ?thesis
    using q0 assms(4) by (simp add: roundToDouble_def Let_def e m r)
qed

lemma pow2_ratio: "(2::rat) powi a / 2 powi b = 2 powi (a - b)"
  by (simp add: power_int_diff)

lemma roundToDouble_cases:
  assumes "roundToDouble q = Fin x" and "q \<noteq> 0"
  obtains n e where "x = sgn q * (of_int n * 2 powi (e - 52))" and "0 \<le> n" and "n \<le> 2 ^ 53"
    and "- 1022 \<le> e" and "e \<le> 1023" and "e = 1023 \<longrightarrow> n < 2 ^ 53"
proof -
  define e where "e = max (ilog2 q) (- 1022)"
  define u :: rat where "u = 2 powi (e - 52)"
  define n where "n = round_half_even (\<bar>q\<bar> / u)"
  have upos: "0 < u" by (simp add: u_def)
  from assms have nov: "\<not> (1024 \<le> e \<or> (e = 1023 \<and> n = 2 ^ 53))"
    and x: "x = sgn q * (of_int n * u)"
    by (auto simp: roundToDouble_def Let_def e_def u_def n_def split: if_splits)
  have "\<bar>q\<bar> < 2 powi (ilog2 q + 1)" using ilog2_bounds [OF assms(2)] by simp
  also have "\<dots> \<le> 2 powi (e + 1)"
    by (rule power_int_increasing) (simp_all add: e_def)
  finally have "\<bar>q\<bar> / u < 2 powi (e + 1) / u" using upos by (simp add: divide_strict_right_mono)
  also have "2 powi (e + 1) / u = 2 powi 53" unfolding u_def pow2_ratio by simp
  finally have "\<bar>q\<bar> / u \<le> of_int (2 ^ 53)" by simp
  then have n_hi: "n \<le> 2 ^ 53" unfolding n_def by (rule round_half_even_le)
  have "of_int 0 \<le> \<bar>q\<bar> / u" using upos by simp
  then have n_lo: "0 \<le> n" unfolding n_def by (rule round_half_even_ge)
  show thesis
  proof (rule that [of n e])
    show "x = sgn q * (of_int n * 2 powi (e - 52))" using x by (simp add: u_def)
    show "0 \<le> n" by (rule n_lo)
    show "n \<le> 2 ^ 53" by (rule n_hi)
    show "- 1022 \<le> e" by (simp add: e_def)
    show "e \<le> 1023" using nov by simp
    show "e = 1023 \<longrightarrow> n < 2 ^ 53" using nov n_hi by auto
  qed
qed

lemma roundToDouble_is_double:
  assumes "roundToDouble q = Fin x"
  shows "is_double x"
proof (cases "q = 0")
  case True
  with assms have "x = 0" by (simp add: roundToDouble_def)
  then have "x = of_int 0 * 2 powi (0 - 52) \<and> \<bar>0::int\<bar> < 2 ^ 53 \<and> - 1022 \<le> (0::int) \<and> (0::int) \<le> 1023"
    by simp
  then show ?thesis unfolding is_double_def by blast
next
  case False
  from assms False obtain n e where x: "x = sgn q * (of_int n * 2 powi (e - 52))"
    and n: "0 \<le> n" "n \<le> 2 ^ 53" and e: "- 1022 \<le> e" "e \<le> 1023"
    and top: "e = 1023 \<longrightarrow> n < 2 ^ 53"
    by (rule roundToDouble_cases)
  define s :: int where "s = (if 0 < q then 1 else - 1)"
  have s: "sgn q = of_int s" using False by (simp add: s_def sgn_if)
  have sabs: "\<bar>s\<bar> = 1" by (simp add: s_def)
  show ?thesis
  proof (cases "n = 2 ^ 53")
    case False
    with n have "\<bar>s * n\<bar> < 2 ^ 53" by (simp add: abs_mult sabs)
    moreover have "x = of_int (s * n) * 2 powi (e - 52)" by (simp add: x s)
    ultimately show ?thesis unfolding is_double_def using e by blast
  next
    case True
    with top e have e': "e + 1 \<le> 1023" by (cases "e = 1023") simp_all
    have "(2::rat) powi (e + 1 - 52) = 2 * 2 powi (e - 52)"
      using power_int_add [of "2::rat" 1 "e - 52"] by (simp add: algebra_simps)
    then have "x = of_int (s * 2 ^ 52) * 2 powi (e + 1 - 52)" by (simp add: x s True)
    moreover have "\<bar>s * 2 ^ 52\<bar> < (2::int) ^ 53" by (simp add: abs_mult sabs)
    ultimately show ?thesis unfolding is_double_def using e e'
      by (intro exI [of _ "s * 2 ^ 52"] exI [of _ "e + 1"]) simp
  qed
qed

lemma pow2_split: "(2::rat) powi (a + b) = 2 powi a * 2 powi b"
  by (rule power_int_add) simp

lemma pow2_53: "2 ^ 53 * 2 powi (e - 52) = (2::rat) powi (e + 1)"
proof -
  have "e + 1 = 53 + (e - 52)" by simp
  then have "(2::rat) powi (e + 1) = 2 powi (53 + (e - 52))" by (simp only:)
  also have "\<dots> = 2 powi 53 * 2 powi (e - 52)" by (rule pow2_split)
  finally show ?thesis by simp
qed

lemma is_double_fixed:
  assumes "is_double x"
  shows "roundToDouble x = Fin x"
proof -
  from assms obtain n e where x: "x = of_int n * 2 powi (e - 52)" and n: "\<bar>n\<bar> < 2 ^ 53"
    and e: "- 1022 \<le> e" "e \<le> 1023"
    unfolding is_double_def by blast
  show ?thesis
  proof (cases "n = 0")
    case True
    then show ?thesis by (simp add: x roundToDouble_def)
  next
    case False
    define u :: rat where "u = 2 powi (e - 52)"
    have upos: "0 < u" by (simp add: u_def)
    have x0: "x \<noteq> 0" using False by (simp add: x)
    have absx: "\<bar>x\<bar> = of_int \<bar>n\<bar> * u" using upos by (simp add: x u_def abs_mult)
    have "rat_of_int \<bar>n\<bar> < rat_of_int (2 ^ 53)" using n by (simp only: of_int_less_iff)
    then have "\<bar>x\<bar> < 2 ^ 53 * u" using upos by (simp add: absx)
    also have "2 ^ 53 * u = 2 powi (e + 1)"
      unfolding u_def by (rule pow2_53)
    finally have xlt: "\<bar>x\<bar> < 2 powi (e + 1)" .
    have "2 powi (ilog2 x) \<le> \<bar>x\<bar>" using ilog2_bounds [OF x0] by simp
    with xlt have "(2::rat) powi (ilog2 x) < 2 powi (e + 1)" by simp
    then have "ilog2 x < e + 1"
      using power_int_increasing [of "e + 1" "ilog2 x" "2::rat"]
      by (cases "ilog2 x < e + 1") auto
    then have le: "ilog2 x \<le> e" by simp
    define e2 where "e2 = max (ilog2 x) (- 1022)"
    have e2: "e2 \<le> e" "- 1022 \<le> e2" using le e by (simp_all add: e2_def)
    define k where "k = nat (e - e2)"
    define u2 :: rat where "u2 = 2 powi (e2 - 52)"
    have u2pos: "0 < u2" by (simp add: u2_def)
    have "(2::rat) powi (e - 52) = 2 powi (e2 - 52) * 2 powi (e - e2)"
      using power_int_add [of "2::rat" "e2 - 52" "e - e2"] by simp
    also have "(2::rat) powi (e - e2) = 2 ^ k"
      using e2 by (simp add: k_def power_int_nonneg_exp)
    finally have uu: "u = u2 * 2 ^ k" by (simp add: u_def u2_def)
    have "\<bar>x\<bar> / u2 = of_int (\<bar>n\<bar> * 2 ^ k)"
      using u2pos by (simp add: absx uu)
    then have r: "round_half_even (\<bar>x\<bar> / u2) = \<bar>n\<bar> * 2 ^ k"
      by (simp only: round_half_even_of_int)
    have nov: "\<not> (1024 \<le> e2 \<or> (e2 = 1023 \<and> \<bar>n\<bar> * 2 ^ k = 2 ^ 53))"
    proof (cases "e2 = 1023")
      case True
      with e2 e have "e = e2" by simp
      then have "k = 0" by (simp add: k_def)
      with n show ?thesis using e2 e by simp
    next
      case False
      with e2 e show ?thesis by simp
    qed
    have "sgn x * (of_int (\<bar>n\<bar> * 2 ^ k) * u2) = sgn x * \<bar>x\<bar>"
      by (simp add: absx uu)
    also have "\<dots> = x" by (simp add: mult_sgn_abs abs_mult_sgn)
    finally have val: "sgn x * (of_int (\<bar>n\<bar> * 2 ^ k) * u2) = x" .
    show ?thesis
      using x0 nov val
      by (simp add: roundToDouble_def Let_def r flip: e2_def u2_def)
  qed
qed

lemma is_double_large_int:
  assumes "is_double x" and "2 ^ 53 \<le> \<bar>x\<bar>"
  shows "\<exists>k. x = of_int k"
proof -
  from assms obtain n e where x: "x = of_int n * 2 powi (e - 52)" and n: "\<bar>n\<bar> < 2 ^ 53"
    unfolding is_double_def by blast
  define u :: rat where "u = 2 powi (e - 52)"
  have upos: "0 < u" by (simp add: u_def)
  have absx: "\<bar>x\<bar> = of_int \<bar>n\<bar> * u" using upos by (simp add: x u_def abs_mult)
  have "rat_of_int \<bar>n\<bar> < rat_of_int (2 ^ 53)" using n by (simp only: of_int_less_iff)
  then have "\<bar>x\<bar> < 2 ^ 53 * u" using upos by (simp add: absx)
  with assms(2) have "2 ^ 53 * 1 < 2 ^ 53 * u" by simp
  then have "1 < u" using mult_less_cancel_left_pos [of "2 ^ 53 :: rat" 1 u] by simp
  then have "(2::rat) powi 0 < 2 powi (e - 52)" by (simp add: u_def)
  then have "0 < e - 52"
    using power_int_increasing [of "e - 52" 0 "2::rat"] by (cases "0 < e - 52") auto
  then have "x = of_int (n * 2 ^ nat (e - 52))"
    by (simp add: x power_int_nonneg_exp)
  then show ?thesis ..
qed

section \<open>The converted amount\<close>

lemma floor_add_half:
  "\<lfloor>z + 1/2\<rfloor> = (if z - of_int \<lfloor>z\<rfloor> < 1/2 then \<lfloor>z\<rfloor> else \<lfloor>z\<rfloor> + 1)" for z :: rat
proof -
  have a: "of_int \<lfloor>z\<rfloor> \<le> z" and b: "z < of_int \<lfloor>z\<rfloor> + 1"
    using floor_correct [of z] by simp_all
  show ?thesis
  proof (cases "z - of_int \<lfloor>z\<rfloor> < 1/2")
    case True
    then have "\<lfloor>z + 1/2\<rfloor> = \<lfloor>z\<rfloor>" using a by (intro floor_unique) linarith+
    with True show ?thesis by simp
  next
    case False
    then have "\<lfloor>z + 1/2\<rfloor> = \<lfloor>z\<rfloor> + 1" using b by (intro floor_unique) (simp_all, linarith?)
    with False show ?thesis by simp
  qed
qed

lemma round_half_away_2dp_int: "round_half_away_2dp (of_int k) = of_int k"
proof -
  have "\<lfloor>rat_of_int (\<bar>k\<bar> * 100) + 1/2\<rfloor> = \<bar>k\<bar> * 100"
    by (intro floor_unique) simp_all
  then have "\<lfloor>\<bar>rat_of_int k\<bar> * 100 + 1/2\<rfloor> = \<bar>k\<bar> * 100"
    by simp
  then have "round_half_away_2dp (of_int k) = sgn (rat_of_int k) * of_int (\<bar>k\<bar> * 100) / 100"
    by (simp only: round_half_away_2dp_def)
  also have "\<dots> = sgn (rat_of_int k) * \<bar>rat_of_int k\<bar>" by simp
  also have "\<dots> = of_int k" by (rule mult_sgn_abs)
  finally show ?thesis .
qed

lemma toFixed2_Number:
  assumes "is_double x"
  shows "js_Number (toFixed2 (Fin x)) = roundToDouble (round_half_away_2dp x)"
proof (cases "10 ^ 21 \<le> \<bar>x\<bar>")
  case True
  then have big: "js_Number (toFixed2 (Fin x)) = Fin x"
    by (auto simp: toFixed2_def js_Number_def Let_def)
  have "(2::rat) ^ 53 \<le> 10 ^ 21" by simp
  with True have "2 ^ 53 \<le> \<bar>x\<bar>" by linarith
  with assms obtain k where "x = of_int k" using is_double_large_int by blast
  then have "round_half_away_2dp x = x" by (simp add: round_half_away_2dp_int)
  with big assms show ?thesis by (simp add: is_double_fixed)
next
  case False
  define n where "n = \<lfloor>\<bar>x\<bar> * 100 + 1/2\<rfloor>"
  have n0: "0 \<le> n" unfolding n_def by (simp add: le_floor_iff)
  have n: "(if \<bar>x\<bar> * 100 - of_int \<lfloor>\<bar>x\<bar> * 100\<rfloor> < 1/2 then \<lfloor>\<bar>x\<bar> * 100\<rfloor>
            else \<lfloor>\<bar>x\<bar> * 100\<rfloor> + 1) = n"
    unfolding n_def by (rule floor_add_half [symmetric])
  have "toFixed2 (Fin x) =
          (if 10 ^ 21 \<le> \<bar>x\<bar> then Plain (Fin x)
           else Fixed2 (x < 0)
                  (nat (if \<bar>x\<bar> * 100 - of_int \<lfloor>\<bar>x\<bar> * 100\<rfloor> < 1/2 then \<lfloor>\<bar>x\<bar> * 100\<rfloor>
                        else \<lfloor>\<bar>x\<bar> * 100\<rfloor> + 1)))"
    by (simp add: toFixed2_def Let_def abs_if)
  also have "\<dots> = Fixed2 (x < 0) (nat n)"
    using False by (simp only: n if_False)
  finally have "js_Number (toFixed2 (Fin x)) =
          roundToDouble ((if x < 0 then - 1 else 1) * of_nat (nat n) / 100)"
    by (simp add: js_Number_def)
  also have "(if x < 0 then - 1 else 1) * of_nat (nat n) / 100 = round_half_away_2dp x"
  proof (cases "x = 0")
    case True
    then show ?thesis by (simp add: round_half_away_2dp_def n_def)
  next
    case False
    then show ?thesis using n0 by (simp add: round_half_away_2dp_def sgn_if flip: n_def)
  qed
  finally show ?thesis .
qed

lemma js_mul_is_double: "js_mul a r = Fin x \<Longrightarrow> is_double x"
  by (cases a; cases r) (auto simp: roundToDouble_is_double split: if_splits)

lemma js_mul_NaN_right [simp]: "js_mul a NaN = NaN"
  by (cases a) simp_all

lemma converted_amount:
  "js_Number (toFixed2 (js_mul a r)) =
     (case js_mul a r of Fin x \<Rightarrow> roundToDouble (round_half_away_2dp x) | v \<Rightarrow> v)"
proof (cases "js_mul a r")
  case (Fin x)
  then show ?thesis using toFixed2_Number [OF js_mul_is_double [OF Fin]] by simp
qed (simp_all add: toFixed2_def js_Number_def)

lemma round_half_away_2dp_grid: "\<exists>k. round_half_away_2dp x = of_int k / 100"
proof (cases "x < 0")
  case True
  then have "round_half_away_2dp x = of_int (- \<lfloor>\<bar>x\<bar> * 100 + 1/2\<rfloor>) / 100"
    by (simp add: round_half_away_2dp_def)
  then show ?thesis ..
next
  case False
  show ?thesis
  proof (cases "x = 0")
    case True
    then have "round_half_away_2dp x = of_int 0 / 100" by (simp add: round_half_away_2dp_def)
    then show ?thesis ..
  next
    case nz: False
    with False have "round_half_away_2dp x = of_int \<lfloor>\<bar>x\<bar> * 100 + 1/2\<rfloor> / 100"
      by (simp add: round_half_away_2dp_def)
    then show ?thesis ..
  qed
qed

lemma round_half_away_2dp_near: "\<bar>round_half_away_2dp x - x\<bar> \<le> 1/200"
proof -
  define n where "n = \<lfloor>\<bar>x\<bar> * 100 + 1/2\<rfloor>"
  have "of_int n \<le> \<bar>x\<bar> * 100 + 1/2" and "\<bar>x\<bar> * 100 + 1/2 < of_int n + 1"
    unfolding n_def using floor_correct [of "\<bar>x\<bar> * 100 + 1/2"] by simp_all
  then have "of_int n / 100 - \<bar>x\<bar> \<le> 1/200" and "- (1/200) \<le> of_int n / 100 - \<bar>x\<bar>"
    by linarith+
  then have d: "\<bar>of_int n / 100 - \<bar>x\<bar>\<bar> \<le> 1/200" by (simp only: abs_le_iff) simp
  have "round_half_away_2dp x - x = sgn x * (of_int n / 100 - \<bar>x\<bar>)"
    by (simp add: round_half_away_2dp_def n_def algebra_simps mult_sgn_abs abs_mult_sgn flip: abs_sgn)
  then have "\<bar>round_half_away_2dp x - x\<bar> = \<bar>sgn x\<bar> * \<bar>of_int n / 100 - \<bar>x\<bar>\<bar>"
    by (simp add: abs_mult)
  also have "\<dots> \<le> 1 * \<bar>of_int n / 100 - \<bar>x\<bar>\<bar>"
    by (intro mult_right_mono) (simp_all add: abs_sgn_eq)
  finally show ?thesis using d by simp
qed

lemma round_half_away_2dp_tie:
  "round_half_away_2dp (of_int (2 * k + 1) / 200) = of_int (if 0 \<le> k then k + 1 else k) / 100"
proof (cases "0 \<le> k")
  case True
  then have pos: "0 < rat_of_int (2 * k + 1) / 200" by simp
  have "\<bar>rat_of_int (2 * k + 1) / 200\<bar> * 100 + 1/2 = of_int (k + 1)"
    using True by (simp add: abs_of_nonneg field_simps)
  then have "\<lfloor>\<bar>rat_of_int (2 * k + 1) / 200\<bar> * 100 + 1/2\<rfloor> = k + 1"
    by (simp only: floor_of_int)
  with True pos show ?thesis by (simp add: round_half_away_2dp_def del: of_int_add of_int_mult)
next
  case False
  then have neg: "rat_of_int (2 * k + 1) / 200 < 0" by simp
  then have "\<bar>rat_of_int (2 * k + 1) / 200\<bar> = - (rat_of_int (2 * k + 1) / 200)"
    by (rule abs_of_neg)
  then have "\<bar>rat_of_int (2 * k + 1) / 200\<bar> * 100 + 1/2 = of_int (- k)"
    by (simp add: field_simps)
  then have "\<lfloor>\<bar>rat_of_int (2 * k + 1) / 200\<bar> * 100 + 1/2\<rfloor> = - k"
    by (simp only: floor_of_int)
  with False neg show ?thesis by (simp add: round_half_away_2dp_def del: of_int_add of_int_mult)
qed

lemma js_mul_one: "js_mul (roundToDouble q) (Fin 1) = roundToDouble q"
proof (cases "roundToDouble q")
  case (Fin x)
  then show ?thesis using is_double_fixed [OF roundToDouble_is_double [OF Fin]] by simp
qed simp_all

lemma double_1999: "roundToDouble (1999 / 100) = Fin (5626684784446013 / 281474976710656)"
  using roundToDouble_eqI [of 4 "1999 / 100" 5626684784446013] by simp

lemma double_92: "roundToDouble (92 / 100) = Fin (8286623314361713 / 9007199254740992)"
  using roundToDouble_eqI [of "- 1" "92 / 100" 8286623314361713] by simp

lemma double_product:
  "roundToDouble ((5626684784446013 / 281474976710656) * (8286623314361713 / 9007199254740992))
     = Fin (1294137500422583 / 70368744177664)"
  using roundToDouble_eqI [of 4 "(5626684784446013 / 281474976710656) * (8286623314361713 / 9007199254740992)" 5176550001690332]
  by simp

lemma round_1839: "round_half_away_2dp (1294137500422583 / 70368744177664) = 1839 / 100"
proof -
  have "\<lfloor>\<bar>1294137500422583 / 70368744177664 :: rat\<bar> * 100 + 1/2\<rfloor> = 1839"
    by (intro floor_unique) simp_all
  then show ?thesis by (simp add: round_half_away_2dp_def)
qed

lemma example_19_99:
  "js_Number (toFixed2 (js_mul (roundToDouble (1999 / 100)) (roundToDouble (92 / 100))))
     = roundToDouble (1839 / 100)"
proof -
  have m: "js_mul (roundToDouble (1999 / 100)) (roundToDouble (92 / 100))
             = Fin (1294137500422583 / 70368744177664)"
    by (simp only: double_1999 double_92 js_mul.simps double_product)
  have "js_Number (toFixed2 (js_mul (roundToDouble (1999 / 100)) (roundToDouble (92 / 100))))
          = (case js_mul (roundToDouble (1999 / 100)) (roundToDouble (92 / 100)) of
               Fin x \<Rightarrow> roundToDouble (round_half_away_2dp x) | v \<Rightarrow> v)"
    by (rule converted_amount)
  also have "\<dots> = roundToDouble (round_half_away_2dp (1294137500422583 / 70368744177664))"
    by (simp only: m jsnum.simps)
  also have "\<dots> = roundToDouble (1839 / 100)"
    by (simp only: round_1839)
  finally show ?thesis .
qed

lemma double_1839: "roundToDouble (1839 / 100) = Fin (1294081205427241 / 70368744177664)"
  using roundToDouble_eqI [of 4 "1839 / 100" 5176324821708964] by simp

text \<open>
  C7: every converted amount is the original amount times the rate (the JavaScript
  product of the two numbers), rounded to two decimal places half away from zero, as a
  number: the double nearest to that decimal (NaN and the infinities stay as they are).
  The rounding meant is on the grid of hundredths, within half a hundredth of its
  argument, and at a tie it takes the hundredth of larger magnitude. With a = 19.99 and
  r = 0.92 the result is 18.39; and with rate 1 the product is the amount itself, so the
  result is the amount rounded to two places.
\<close>

theorem C7_conversion_rounding:
  "map amount (convertTransactionsCurrency ts rate) =
     map (\<lambda>t. Some (case js_mul (toNumber (amount t)) rate of
                       Fin x \<Rightarrow> roundToDouble (round_half_away_2dp x) | v \<Rightarrow> v)) ts
   \<and> (\<exists>k. round_half_away_2dp x = of_int k / 100)
   \<and> \<bar>round_half_away_2dp x - x\<bar> \<le> 1/200
   \<and> round_half_away_2dp (of_int (2 * k + 1) / 200) = of_int (if 0 \<le> k then k + 1 else k) / 100
   \<and> map amount (convertTransactionsCurrency [t\<lparr>amount := Some (roundToDouble (1999 / 100))\<rparr>]
          (roundToDouble (92 / 100))) = [Some (roundToDouble (1839 / 100))]
   \<and> js_mul (roundToDouble q) (Fin 1) = roundToDouble q"
proof -
  have a: "map amount (convertTransactionsCurrency ts rate) =
     map (\<lambda>t. Some (case js_mul (toNumber (amount t)) rate of
                       Fin x \<Rightarrow> roundToDouble (round_half_away_2dp x) | v \<Rightarrow> v)) ts"
    by (simp add: convertTransactionsCurrency_def comp_def converted_amount)
  have b: "map amount (convertTransactionsCurrency [t\<lparr>amount := Some (roundToDouble (1999 / 100))\<rparr>]
          (roundToDouble (92 / 100))) = [Some (roundToDouble (1839 / 100))]"
    using example_19_99 by (simp add: convertTransactionsCurrency_def toNumber_def)
  from a b round_half_away_2dp_grid [of x] round_half_away_2dp_near [of x]
    round_half_away_2dp_tie [of k] js_mul_one [of q]
  show ?thesis by blast
qed

section \<open>Base64 and the envelope round trip\<close>

lemma btoa_codes_split: "btoa_codes cs = map b64_char (b64_body cs) @ b64_pad cs"
  by (induction cs rule: btoa_codes.induct) simp_all

lemma b64_body_bound: "\<forall>c \<in> set cs. c < 256 \<Longrightarrow> \<forall>v \<in> set (b64_body cs). v < 64"
  by (induction cs rule: b64_body.induct) auto

lemma b64_arith1: "b < 256 \<Longrightarrow> a div 4 * 4 + (a mod 4 * 16 + b div 16) div 16 = (a::nat)"
proof -
  assume "b < 256"
  then have "b div 16 < 16" by arith
  then show ?thesis by simp
qed

lemma b64_arith2: "b < 256 \<Longrightarrow> c < 256 \<Longrightarrow> (a mod 4 * 16 + b div 16) mod 16 * 16 + (b mod 16 * 4 + c div 64) div 4 = (b::nat)"
proof -
  assume "b < 256" "c < 256"
  then have "b div 16 < 16" "c div 64 < 4" by arith+
  then show ?thesis by simp
qed

lemma b64_arith3: "c < 256 \<Longrightarrow> (b mod 16 * 4 + c div 64) mod 4 * 64 + c mod 64 = (c::nat)"
proof -
  assume "c < 256"
  then have "c div 64 < 4" by arith
  then show ?thesis by simp
qed

lemma b64_arith4: "b < 256 \<Longrightarrow> (a mod 4 * 16 + b div 16) mod 16 * 16 + (b mod 16 * 4) div 4 = (b::nat)"
proof -
  assume "b < 256"
  then have "b div 16 < 16" by arith
  then show ?thesis by simp
qed

lemma b64_arith5: "a div 4 * 4 + (a mod 4 * 16) div 16 = (a::nat)"
  by simp

lemma atob_values_body: "\<forall>c \<in> set cs. c < 256 \<Longrightarrow> atob_values (b64_body cs) = cs"
proof (induction cs rule: b64_body.induct)
  case (1 a b c rest)
  then have lt: "b < 256" "c < 256" and IH: "atob_values (b64_body rest) = rest"
    by simp_all
  show ?case
    unfolding b64_body.simps atob_values.simps IH
    by (simp only: b64_arith1 [OF lt(1)] b64_arith2 [OF lt] b64_arith3 [OF lt(2)])
next
  case (2 a b)
  then have lt: "b < 256" by simp
  show ?case
    unfolding b64_body.simps atob_values.simps
    by (simp only: b64_arith1 [OF lt] b64_arith4 [OF lt])
next
  case (3 a)
  show ?case
    unfolding b64_body.simps atob_values.simps
    by (simp only: b64_arith5)
next
  case 4
  show ?case by simp
qed

lemma index_of_nth: "distinct xs \<Longrightarrow> n < length xs \<Longrightarrow> index_of (xs ! n) xs = Some n"
proof (induction xs arbitrary: n)
  case Nil
  then show ?case by simp
next
  case (Cons x xs)
  show ?case
  proof (cases n)
    case 0
    then show ?thesis by simp
  next
    case (Suc m)
    with Cons.prems have "xs ! m \<in> set xs" "x \<notin> set xs" by auto
    then have "xs ! m \<noteq> x" by auto
    with Cons Suc show ?thesis by simp
  qed
qed

lemma b64_alphabet_props:
  "distinct b64_alphabet" "length b64_alphabet = 64" "CHR ''='' \<notin> set b64_alphabet"
  "\<forall>c \<in> set b64_alphabet. \<not> ascii_whitespace c"
  by (simp_all add: b64_alphabet_def ascii_whitespace_def)

lemma b64_value_char: "n < 64 \<Longrightarrow> b64_value (b64_char n) = Some n"
  by (simp add: b64_value_def b64_char_def index_of_nth b64_alphabet_props)

lemma b64_char_in: "n < 64 \<Longrightarrow> b64_char n \<in> set b64_alphabet"
  by (simp add: b64_char_def b64_alphabet_props)

lemma those_b64: "\<forall>v \<in> set vs. v < 64 \<Longrightarrow> those (map (b64_value \<circ> b64_char) vs) = Some vs"
  by (induction vs) (simp_all add: b64_value_char)


lemma b64_pad_cases: "b64_pad cs = [] \<or> b64_pad cs = [CHR ''=''] \<or> b64_pad cs = [CHR ''='', CHR ''='']"
  by (induction cs rule: b64_pad.induct) simp_all

lemma b64_lengths:
  "(length (b64_body cs) + length (b64_pad cs)) mod 4 = 0 \<and> length (b64_body cs) mod 4 \<noteq> 1"
  by (induction cs rule: b64_body.induct) (simp_all, presburger?)

lemma strip_padding_append:
  assumes "(length xs + length pad) mod 4 = 0"
    and "pad = [] \<or> pad = [CHR ''=''] \<or> pad = [CHR ''='', CHR ''='']"
    and "CHR ''='' \<notin> set xs"
  shows "strip_padding (xs @ pad) = xs"
proof -
  have last_xs: "xs \<noteq> [] \<Longrightarrow> last xs \<noteq> CHR ''=''"
    using assms(3) last_in_set by metis
  from assms(2) consider "pad = []" | "pad = [CHR ''='']" | "pad = [CHR ''='', CHR ''='']"
    by blast
  then show ?thesis
  proof cases
    case 1
    then show ?thesis using last_xs by (auto simp: strip_padding_def)
  next
    case 2
    then show ?thesis using assms(1) last_xs
      by (auto simp: strip_padding_def butlast_append)
  next
    case 3
    then show ?thesis using assms(1) last_xs
      by (auto simp: strip_padding_def butlast_append)
  qed
qed

lemma atob_btoa_codes:
  assumes "\<forall>c \<in> set cs. c < 256"
  shows "atob (btoa_codes cs) = Some (map char_of cs)"
proof -
  let ?body = "map b64_char (b64_body cs)"
  have bound: "\<forall>v \<in> set (b64_body cs). v < 64"
    using assms by (rule b64_body_bound)
  then have in_alpha: "set ?body \<subseteq> set b64_alphabet"
    by (auto simp: b64_char_in)
  then have no_eq: "CHR ''='' \<notin> set ?body"
    using b64_alphabet_props(3) by blast
  have no_ws: "\<forall>c \<in> set (btoa_codes cs). \<not> ascii_whitespace c"
    using in_alpha b64_alphabet_props(4) b64_pad_cases [of cs]
    by (auto simp: btoa_codes_split ascii_whitespace_def)
  then have filt: "filter (\<lambda>c. \<not> ascii_whitespace c) (btoa_codes cs) = btoa_codes cs"
    by simp
  have strip: "strip_padding (btoa_codes cs) = ?body"
    unfolding btoa_codes_split
    by (rule strip_padding_append) (use b64_lengths [of cs] b64_pad_cases [of cs] no_eq in simp_all)
  have len: "length ?body mod 4 \<noteq> 1"
    using b64_lengths [of cs] by simp
  show ?thesis
    using len by (simp add: atob_def filt strip those_b64 [OF bound] atob_values_body [OF assms])
qed

lemma atob_btoa: "atob (btoa s) = Some s"
proof -
  have "\<forall>c \<in> set (map of_char s). c < (256::nat)"
    by simp
  then have "atob (btoa_codes (map of_char s)) = Some (map char_of (map of_char s :: nat list))"
    by (rule atob_btoa_codes)
  then show ?thesis by (simp add: btoa_def comp_def)
qed

lemma foldl_snoc_map: "foldl (\<lambda>acc b. acc @ [f b]) acc0 bs = acc0 @ map f bs"
  by (induction bs arbitrary: acc0) simp_all

lemma charCodeAt_fromCharCode: "charCodeAt (fromCharCode b) = b"
proof -
  have "unat b < 256" using unsigned_less [of b] by simp
  then show ?thesis by (simp add: charCodeAt_def fromCharCode_def)
qed

lemma fromCharCode_charCodeAt: "fromCharCode (charCodeAt c) = c"
proof -
  have "(of_char c :: nat) < 256" by simp
  then have "unat (of_nat (of_char c) :: byte) = of_char c"
    by (simp add: unat_of_nat)
  then show ?thesis by (simp add: charCodeAt_def fromCharCode_def)
qed

lemma base64_roundtrip: "base64ToArrayBuffer (arrayBufferToBase64 buffer) = Some buffer"
  by (simp add: base64ToArrayBuffer_def arrayBufferToBase64_def foldl_snoc_map atob_btoa
        comp_def charCodeAt_fromCharCode)

lemma text_roundtrip: "textDecode (textEncode s) = s"
  by (simp add: textDecode_def textEncode_def comp_def fromCharCode_charCodeAt)

text \<open>
  C3: for every plaintext \<open>p\<close> that survives JSON (\<^verbatim>\<open>JSON.parse\<close> of
  \<^verbatim>\<open>JSON.stringify(p)\<close> is \<open>p\<close>), every key and every IV for which AES-GCM
  decryption inverts AES-GCM encryption on the serialised plaintext,
  \<^verbatim>\<open>decrypt(encrypt(p, k), k)\<close> returns \<open>p\<close>: the UTF-8 encoding, and the base64
  encoding of the ciphertext and of the IV, each done separately, are undone exactly.
\<close>

theorem C3_roundtrip:
  assumes "aes_gcm_decrypt pf k iv_bytes
             (aes_gcm_encrypt pf k iv_bytes (textEncode (json_stringify pf p)))
           = Some (textEncode (json_stringify pf p))"
    and "json_parse pf (json_stringify pf p) = Some p"
  shows "decrypt pf (env_encrypted_data (encrypt pf iv_bytes p k))
           (env_iv (encrypt pf iv_bytes p k)) k = Inr p"
  using assms
  by (simp add: decrypt_def encrypt_def Let_def base64_roundtrip text_roundtrip)

text \<open>
  C3 on the example: the payload \<^verbatim>\<open>{amount: 42.5, description: "lunch"}\<close> comes back
  from the envelope that \<^verbatim>\<open>encrypt\<close> builds for it.
\<close>

theorem C3_roundtrip_witness:
  "aes_gcm_decrypt example_platform example_key example_iv
     (aes_gcm_encrypt example_platform example_key example_iv
        (textEncode (json_stringify example_platform example_payload)))
     = Some (textEncode (json_stringify example_platform example_payload))
   \<and> json_parse example_platform (json_stringify example_platform example_payload)
       = Some example_payload
   \<and> decrypt example_platform
         (env_encrypted_data (encrypt example_platform example_iv example_payload example_key))
         (env_iv (encrypt example_platform example_iv example_payload example_key)) example_key
       = Inr example_payload"
proof -
  have h1: "aes_gcm_decrypt example_platform example_key example_iv
     (aes_gcm_encrypt example_platform example_key example_iv
        (textEncode (json_stringify example_platform example_payload)))
     = Some (textEncode (json_stringify example_platform example_payload))"
    by (simp add: example_platform_def)
  have h2: "json_parse example_platform (json_stringify example_platform example_payload)
              = Some example_payload"
    by (simp add: example_platform_def)
  from h1 h2 C3_roundtrip [OF h1 h2] show ?thesis by blast
qed

section \<open>Decryption failures\<close>

lemma of_char_fromCharCode: "of_char (fromCharCode b) = unat b"
proof -
  have "unat b < 256" using unsigned_less [of b] by simp
  then show ?thesis by (simp add: fromCharCode_def)
qed

lemma arrayBufferToBase64_codes: "arrayBufferToBase64 buffer = btoa_codes (map unat buffer)"
  by (simp add: arrayBufferToBase64_def foldl_snoc_map btoa_def comp_def of_char_fromCharCode)

lemma example_envelope:
  "encrypt example_platform example_iv example_payload example_key =
     \<lparr> env_encrypted_data =
         ''EuTFrBYPscaAQxcJJXfRQtiexFnYfnvx3zaevzmhrkLOMMQ8P6MLXu61X0/KbyfPB6yEO8Q='',
       env_iv = ''AgMEBQYHCAkKCwwN'' \<rparr>"
proof -
  have c: "arrayBufferToBase64 example_ciphertext =
             ''EuTFrBYPscaAQxcJJXfRQtiexFnYfnvx3zaevzmhrkLOMMQ8P6MLXu61X0/KbyfPB6yEO8Q=''"
    unfolding arrayBufferToBase64_codes example_ciphertext_def
    by (simp add: b64_char_def b64_alphabet_def)
  have n: "arrayBufferToBase64 example_iv = ''AgMEBQYHCAkKCwwN''"
    unfolding arrayBufferToBase64_codes example_iv_def
    by (simp add: b64_char_def b64_alphabet_def)
  show ?thesis
    by (simp add: encrypt_def Let_def example_platform_def c n)
qed

lemma example_altered_decodes:
  "base64ToArrayBuffer
     ''EuTFrBYPscaAQxcJJXfRQtiexFnYfnvx3zaevzmhrkLOMMQ8P6MLXu61X0/KbyfPB6yEO8S=''
     = Some example_ciphertext"
  unfolding example_ciphertext_def
  by (simp add: base64ToArrayBuffer_def atob_def ascii_whitespace_def strip_padding_def
        b64_value_def b64_alphabet_def charCodeAt_def)

text \<open>
  C4, as amended: \<^verbatim>\<open>decrypt\<close> returns a value only when both fields are base64 and
  AES-GCM decryption, under the given key and the decoded IV, accepted the decoded
  ciphertext, the value being the JSON of the authenticated plaintext; when AES-GCM
  rejects them (the tag does not verify: wrong key, corrupted bytes, tampering),
  \<^verbatim>\<open>decrypt\<close> fails with the platform's OperationError, and when a field is not
  base64 it fails with the InvalidCharacterError. There is no path that returns a value
  after a rejection.
\<close>

theorem C4_no_value_without_authentication:
  "(decrypt pf ct iv_text k = Inr v \<longrightarrow>
      (\<exists>ctb ivb pt. base64ToArrayBuffer ct = Some ctb \<and> base64ToArrayBuffer iv_text = Some ivb
         \<and> aes_gcm_decrypt pf k ivb ctb = Some pt \<and> json_parse pf (textDecode pt) = Some v))
   \<and> (base64ToArrayBuffer ct = Some ctb' \<and> base64ToArrayBuffer iv_text = Some ivb'
        \<and> aes_gcm_decrypt pf k ivb' ctb' = None \<longrightarrow>
      decrypt pf ct iv_text k = Inl OperationError)
   \<and> (base64ToArrayBuffer ct = None \<or> base64ToArrayBuffer iv_text = None \<longrightarrow>
      decrypt pf ct iv_text k = Inl InvalidCharacterError)"
  by (auto simp: decrypt_def split: option.splits)

text \<open>
  The amended C4 on the example envelope and another key: AES-GCM rejects, and
  \<^verbatim>\<open>decrypt\<close> fails.
\<close>

theorem C4_witness:
  "base64ToArrayBuffer
     (env_encrypted_data (encrypt example_platform example_iv example_payload example_key))
     = Some example_ciphertext
   \<and> base64ToArrayBuffer
       (env_iv (encrypt example_platform example_iv example_payload example_key))
     = Some example_iv
   \<and> aes_gcm_decrypt example_platform example_other_key example_iv example_ciphertext = None
   \<and> decrypt example_platform
       (env_encrypted_data (encrypt example_platform example_iv example_payload example_key))
       (env_iv (encrypt example_platform example_iv example_payload example_key))
       example_other_key
     = Inl OperationError"
proof -
  have h1: "base64ToArrayBuffer
      (env_encrypted_data (encrypt example_platform example_iv example_payload example_key))
     = Some example_ciphertext"
    by (simp add: encrypt_def Let_def base64_roundtrip example_platform_def)
  have h2: "base64ToArrayBuffer
      (env_iv (encrypt example_platform example_iv example_payload example_key))
     = Some example_iv"
    by (simp add: encrypt_def Let_def base64_roundtrip)
  have h3: "aes_gcm_decrypt example_platform example_other_key example_iv example_ciphertext
              = None"
    by (simp add: example_platform_def example_key_def example_other_key_def)
  from h1 h2 h3 C4_no_value_without_authentication
    [of example_platform
        "env_encrypted_data (encrypt example_platform example_iv example_payload example_key)"
        "env_iv (encrypt example_platform example_iv example_payload example_key)"
        example_other_key _ example_ciphertext example_iv]
  show ?thesis by blast
qed

text \<open>
  C4 as stated fails: in the ciphertext of the example envelope, which ends in
  \<^verbatim>\<open>Q=\<close>, one bit of the last character before the padding is flipped
  (\<^verbatim>\<open>Q\<close>, code 81, becomes \<^verbatim>\<open>S\<close>, code 83). \<^verbatim>\<open>atob\<close> discards the two low
  bits of that character, so the altered text decodes to the same bytes, AES-GCM
  accepts them, and \<^verbatim>\<open>decrypt\<close> returns the payload.
\<close>

theorem C4_flipped_bit_counterexample:
  "env_encrypted_data (encrypt example_platform example_iv example_payload example_key)
     = ''EuTFrBYPscaAQxcJJXfRQtiexFnYfnvx3zaevzmhrkLOMMQ8P6MLXu61X0/KbyfPB6yEO8Q=''
   \<and> env_iv (encrypt example_platform example_iv example_payload example_key)
     = ''AgMEBQYHCAkKCwwN''
   \<and> decrypt example_platform
       ''EuTFrBYPscaAQxcJJXfRQtiexFnYfnvx3zaevzmhrkLOMMQ8P6MLXu61X0/KbyfPB6yEO8S=''
       ''AgMEBQYHCAkKCwwN'' example_key
     = Inr example_payload
   \<and> (of_char CHR ''Q'' :: nat) = 81 \<and> (of_char CHR ''S'' :: nat) = 81 + 2"
proof -
  have n: "base64ToArrayBuffer ''AgMEBQYHCAkKCwwN'' = Some example_iv"
    using base64_roundtrip [of example_iv] example_envelope
    by (simp add: encrypt_def Let_def)
  have dec: "aes_gcm_decrypt example_platform example_key example_iv example_ciphertext
               = Some (textEncode example_json)"
    by (simp add: example_platform_def)
  have parse: "json_parse example_platform example_json = Some example_payload"
    by (simp add: example_platform_def)
  have b: "decrypt example_platform
       ''EuTFrBYPscaAQxcJJXfRQtiexFnYfnvx3zaevzmhrkLOMMQ8P6MLXu61X0/KbyfPB6yEO8S=''
       ''AgMEBQYHCAkKCwwN'' example_key
     = Inr example_payload"
    unfolding decrypt_def example_altered_decodes n
    by (simp add: dec parse text_roundtrip)
  from b show ?thesis by (simp add: example_envelope)
qed

section \<open>The conversion batch\<close>

lemma other_columns_amount_patch:
  "other_columns (apply_patch (amount_patch a now) r) = other_columns r"
  by (simp add: other_columns_def apply_patch_def amount_patch_def empty_patch_def)

lemma update_all_frame:
  "map other_columns (db_transactions (snd (update_all respond now ts w))) =
     map other_columns (db_transactions w)"
proof (induction ts arbitrary: w)
  case Nil
  show ?case by simp
next
  case (Cons t ts)
  have step: "map other_columns (db_transactions
                 (snd (db_update_transaction respond (tx_id t) (amount_patch (amount t) now) w)))
              = map other_columns (db_transactions w)"
    by (cases "respond (UpdateTransaction (tx_id t) (amount_patch (amount t) now))")
       (simp_all add: db_update_transaction_def Let_def other_columns_amount_patch comp_def)
  show ?case
    using Cons.IH [of "snd (db_update_transaction respond (tx_id t) (amount_patch (amount t) now) w)"] step
    by (simp add: case_prod_beta)
qed

lemma update_all_eq:
  "update_all respond now ts w =
     (map (\<lambda>t. respond (convert_call now t)) ts,
      w\<lparr>db_transactions := apply_successful respond now ts (db_transactions w),
        calls := calls w @ map (convert_call now) ts\<rparr>)"
proof (induction ts arbitrary: w)
  case Nil
  show ?case by (simp add: apply_successful_def)
next
  case (Cons t ts)
  show ?case
    by (cases "respond (convert_call now t)")
       (simp_all add: Cons.IH db_update_transaction_def Let_def apply_successful_def
          convert_call_def)
qed

lemma find_failed_cases:
  "(case find (\<lambda>result. result \<noteq> None) rs of Some (Some msg) \<Rightarrow> f msg | _ \<Rightarrow> g) =
   (case find (\<lambda>result. result \<noteq> None) rs of Some x \<Rightarrow> f (the x) | None \<Rightarrow> g)"
  by (induction rs) (auto split: option.splits)

lemma find_failed_not_None [simp]:
  "find (\<lambda>result. \<exists>y. result = Some y) rs \<noteq> Some None"
  "find (\<lambda>result. result \<noteq> None) rs \<noteq> Some None"
  by (induction rs) auto

lemmas example_defs = example_three_def example_world_def example_clear_tx_def
  example_fail_b_def example_fail_b_c_def initialState_def

section \<open>Bad rates\<close>

text \<open>
  C5, as amended: when the rate the dialog reads is NaN or not greater than zero (so for
  0, -5 and NaN), \<^verbatim>\<open>handleConvert\<close> sets the dialog's error message and stops:
  \<^verbatim>\<open>onConvert\<close> is not called, the page and the world are unchanged, and so no
  request is sent. The rejection is the error message in the dialog, not an exception.
\<close>

theorem C5_rejects_nonpositive_and_NaN:
  assumes "js_isNaN (parseFloat (conversionRate_text d))
           \<or> js_le (parseFloat (conversionRate_text d)) (Fin 0)"
  shows "convert parseFloat respond now (d, p, w) =
           (d\<lparr>dlg_loading := False,
              dlg_error := ''Please enter a valid conversion rate greater than 0''\<rparr>, p, w)"
  using assms by (auto simp: convert_def dialog_handleConvert_def Let_def)

text \<open>The amended C5 on the rates -5, 0 and NaN: the request log stays empty.\<close>

theorem C5_rejects_witness:
  "(js_isNaN (example_parseFloat (conversionRate_text (example_dialog ''-5'')))
    \<or> js_le (example_parseFloat (conversionRate_text (example_dialog ''-5''))) (Fin 0))
   \<and> calls (snd (snd (convert example_parseFloat (\<lambda>c. None) example_now
         (example_dialog ''-5'', example_page,
          example_world [example_clear_tx ''t1'' (Fin 10)] [example_clear_tx ''t1'' (Fin 10)]))))
       = []
   \<and> calls (snd (snd (convert example_parseFloat (\<lambda>c. None) example_now
         (example_dialog ''0'', example_page,
          example_world [example_clear_tx ''t1'' (Fin 10)] [example_clear_tx ''t1'' (Fin 10)]))))
       = []
   \<and> calls (snd (snd (convert example_parseFloat (\<lambda>c. None) example_now
         (example_dialog ''NaN'', example_page,
          example_world [example_clear_tx ''t1'' (Fin 10)] [example_clear_tx ''t1'' (Fin 10)]))))
       = []"
proof -
  have h1: "js_isNaN (example_parseFloat (conversionRate_text (example_dialog ''-5'')))
    \<or> js_le (example_parseFloat (conversionRate_text (example_dialog ''-5''))) (Fin 0)"
    by (simp add: example_parseFloat_def example_dialog_def)
  have h2: "js_isNaN (example_parseFloat (conversionRate_text (example_dialog ''0'')))
    \<or> js_le (example_parseFloat (conversionRate_text (example_dialog ''0''))) (Fin 0)"
    by (simp add: example_parseFloat_def example_dialog_def)
  have h3: "js_isNaN (example_parseFloat (conversionRate_text (example_dialog ''NaN'')))
    \<or> js_le (example_parseFloat (conversionRate_text (example_dialog ''NaN''))) (Fin 0)"
    by (simp add: example_parseFloat_def example_dialog_def js_isNaN_def)
  show ?thesis
    using h1
      C5_rejects_nonpositive_and_NaN
        [where parseFloat = example_parseFloat and d = "example_dialog ''-5''", OF h1]
      C5_rejects_nonpositive_and_NaN
        [where parseFloat = example_parseFloat and d = "example_dialog ''0''", OF h2]
      C5_rejects_nonpositive_and_NaN
        [where parseFloat = example_parseFloat and d = "example_dialog ''NaN''", OF h3]
    by (simp add: example_world_def)
qed

text \<open>
  C5 as stated fails for Infinity: the guard \<^verbatim>\<open>isNaN(rate) || rate <= 0\<close> lets it
  pass, no error is set, and the conversion runs: one update with the amount Infinity
  and the settings update are sent, and the stored amount becomes null.
\<close>

theorem C5_infinity_counterexample:
  "dlg_error (fst (convert example_parseFloat (\<lambda>c. None) example_now
         (example_dialog ''Infinity'', example_page,
          example_world [example_clear_tx ''t1'' (Fin 10)] [example_clear_tx ''t1'' (Fin 10)])))
     = []
   \<and> calls (snd (snd (convert example_parseFloat (\<lambda>c. None) example_now
         (example_dialog ''Infinity'', example_page,
          example_world [example_clear_tx ''t1'' (Fin 10)] [example_clear_tx ''t1'' (Fin 10)]))))
     = [UpdateTransaction ''t1''
          (empty_patch\<lparr>set_amount := Some PInf, set_updated_at := Some example_now\<rparr>),
        UpdateUserSettings None ''EUR'' example_now]
   \<and> map amount (db_transactions (snd (snd (convert example_parseFloat (\<lambda>c. None) example_now
         (example_dialog ''Infinity'', example_page,
          example_world [example_clear_tx ''t1'' (Fin 10)] [example_clear_tx ''t1'' (Fin 10)])))))
     = [None]"
  by (simp add: convert_def dialog_handleConvert_def Let_def example_parseFloat_def
        example_dialog_def example_page_def example_world_def example_clear_tx_def
        page_handleConvert_def page_onClose_def truthy_str_def js_isNaN_def
        updateTransactionsCurrencyInDB_def convertTransactionsCurrency_def toNumber_def
        toFixed2_def js_Number_def update_all_eq convert_call_def amount_patch_def
        apply_successful_def apply_patch_def empty_patch_def db_update_user_settings_def
        initialState_def setCurrency_def setTransactions_def json_number_def)

section \<open>Partial failure of the batch\<close>

text \<open>
  C6, as amended: when the store holds transactions and at least one update of the batch
  fails, every update of the batch has been sent, the updates the backend carried out
  stay written (nothing is rolled back), the settings update is not sent, the store
  keeps its transactions and its currency, and the caller gets one exception whose
  message is that of the first failed update in the batch's order. The exception carries
  no count.
\<close>

theorem C6_first_error_no_rollback:
  assumes "transactions (store w) \<noteq> []"
    and "find (\<lambda>result. result \<noteq> None)
           (map (\<lambda>t. respond (convert_call now t))
              (convertTransactionsCurrency (transactions (store w)) rate)) = Some (Some msg)"
  shows "updateTransactionsCurrencyInDB respond now oldCurrency newCurrency rate w =
           (Inl (Error (''Failed to update transactions: '' @ msg)),
            w\<lparr>db_transactions :=
                 apply_successful respond now
                   (convertTransactionsCurrency (transactions (store w)) rate)
                   (db_transactions w),
              calls := calls w @ map (convert_call now)
                 (convertTransactionsCurrency (transactions (store w)) rate)\<rparr>)"
  using assms
  by (simp add: updateTransactionsCurrencyInDB_def Let_def update_all_eq)

text \<open>
  The amended C6 on three transactions of which the second fails: the error is that of
  the second, and the first and third rows are rewritten (their \<^verbatim>\<open>updated_at\<close> is the
  time of the batch).
\<close>

theorem C6_witness:
  "transactions (store example_three) \<noteq> []
   \<and> find (\<lambda>result. result \<noteq> None)
           (map (\<lambda>t. example_fail_b (convert_call example_now t))
              (convertTransactionsCurrency (transactions (store example_three)) (Fin 2)))
       = Some (Some ''boom'')
   \<and> fst (updateTransactionsCurrencyInDB example_fail_b example_now ''USD'' ''EUR'' (Fin 2)
             example_three)
       = Inl (Error ''Failed to update transactions: boom'')
   \<and> map tx_id (db_transactions (snd (updateTransactionsCurrencyInDB example_fail_b example_now
             ''USD'' ''EUR'' (Fin 2) example_three))) = [''a'', ''b'', ''c'']
   \<and> map updated_at (db_transactions (snd (updateTransactionsCurrencyInDB example_fail_b
             example_now ''USD'' ''EUR'' (Fin 2) example_three)))
       = [example_now, ''2024-01-15T12:00:00.000Z'', example_now]"
proof -
  have h1: "transactions (store example_three) \<noteq> []"
    by (simp add: example_defs)
  have h2: "find (\<lambda>result. result \<noteq> None)
           (map (\<lambda>t. example_fail_b (convert_call example_now t))
              (convertTransactionsCurrency (transactions (store example_three)) (Fin 2)))
       = Some (Some ''boom'')"
    by (simp add: example_defs convertTransactionsCurrency_def convert_call_def)
  note r = C6_first_error_no_rollback [OF h1 h2, of "''USD''" "''EUR''"]
  show ?thesis
    unfolding r using h1 h2
    by (simp add: example_defs convertTransactionsCurrency_def convert_call_def
          apply_successful_def apply_patch_def amount_patch_def empty_patch_def)
qed

text \<open>
  C6 as stated fails: the same three transactions, once with one failed update and once
  with two, give the caller the same exception, while two rows were rewritten in the
  first run and one in the second. What is reported does not determine the counts.
\<close>

theorem C6_counts_counterexample:
  "fst (updateTransactionsCurrencyInDB example_fail_b example_now ''USD'' ''EUR'' (Fin 2)
          example_three)
     = Inl (Error ''Failed to update transactions: boom'')
   \<and> fst (updateTransactionsCurrencyInDB example_fail_b_c example_now ''USD'' ''EUR'' (Fin 2)
          example_three)
     = Inl (Error ''Failed to update transactions: boom'')
   \<and> succeeded example_fail_b
         (calls (snd (updateTransactionsCurrencyInDB example_fail_b example_now ''USD'' ''EUR''
                        (Fin 2) example_three))) = 2
   \<and> succeeded example_fail_b_c
         (calls (snd (updateTransactionsCurrencyInDB example_fail_b_c example_now ''USD'' ''EUR''
                        (Fin 2) example_three))) = 1"
  by (simp add: updateTransactionsCurrencyInDB_def Let_def update_all_eq example_defs
        convertTransactionsCurrency_def convert_call_def succeeded_def)

section \<open>Frame properties of the currency service\<close>

text \<open>
  C10: \<^verbatim>\<open>convertTransactionsCurrency\<close> returns a list of the same length, and the
  list is the input in the same order with only \<^verbatim>\<open>amount\<close> changed. The rows of
  the table after \<^verbatim>\<open>updateTransactionsCurrencyInDB\<close>, whatever the backend answers,
  are the rows before in every column but \<^verbatim>\<open>amount\<close> and \<^verbatim>\<open>updated_at\<close>
  (id, type, date, category, tags, mood, description, notes, encrypted_data and iv are
  untouched), and the requests it sends are one update per transaction, whose object
  has the two properties \<^verbatim>\<open>amount\<close> and \<^verbatim>\<open>updated_at\<close> only, followed, when
  none failed, by the update of the user settings.
\<close>

theorem C10_convert_frame:
  "length (convertTransactionsCurrency ts rate) = length ts
   \<and> map (\<lambda>t. t\<lparr>amount := None\<rparr>) (convertTransactionsCurrency ts rate) =
       map (\<lambda>t. t\<lparr>amount := None\<rparr>) ts
   \<and> map other_columns
         (db_transactions
            (snd (updateTransactionsCurrencyInDB respond now oldCurrency newCurrency rate w))) =
       map other_columns (db_transactions w)
   \<and> calls (snd (updateTransactionsCurrencyInDB respond now oldCurrency newCurrency rate w)) =
       calls w @
       (if transactions (store w) = [] then []
        else map (\<lambda>t. UpdateTransaction (tx_id t)
                        (empty_patch\<lparr>set_amount := amount t, set_updated_at := Some now\<rparr>))
               (convertTransactionsCurrency (transactions (store w)) rate) @
             (if find (\<lambda>result. result \<noteq> None)
                   (map (\<lambda>t. respond (convert_call now t))
                      (convertTransactionsCurrency (transactions (store w)) rate)) = None
              then [UpdateUserSettings (map_option us_id (settings (store w))) newCurrency now]
              else []))"
proof -
  have frame: "map other_columns (apply_successful respond now cs rows) = map other_columns rows"
    for cs rows
    using update_all_frame [of respond now cs "w\<lparr>db_transactions := rows\<rparr>"]
    by (simp add: update_all_eq)
  have a: "length (convertTransactionsCurrency ts rate) = length ts"
    by (simp add: convertTransactionsCurrency_def)
  have b: "map (\<lambda>t. t\<lparr>amount := None\<rparr>) (convertTransactionsCurrency ts rate) =
           map (\<lambda>t. t\<lparr>amount := None\<rparr>) ts"
    by (simp add: convertTransactionsCurrency_def)
  have c: "map other_columns
         (db_transactions
            (snd (updateTransactionsCurrencyInDB respond now oldCurrency newCurrency rate w))) =
       map other_columns (db_transactions w)"
    by (simp add: updateTransactionsCurrencyInDB_def Let_def update_all_eq find_failed_cases
          db_update_user_settings_def frame split: option.splits)
  have d: "calls (snd (updateTransactionsCurrencyInDB respond now oldCurrency newCurrency rate w)) =
       calls w @
       (if transactions (store w) = [] then []
        else map (\<lambda>t. UpdateTransaction (tx_id t)
                        (empty_patch\<lparr>set_amount := amount t, set_updated_at := Some now\<rparr>))
               (convertTransactionsCurrency (transactions (store w)) rate) @
             (if find (\<lambda>result. result \<noteq> None)
                   (map (\<lambda>t. respond (convert_call now t))
                      (convertTransactionsCurrency (transactions (store w)) rate)) = None
              then [UpdateUserSettings (map_option us_id (settings (store w))) newCurrency now]
              else []))"
    by (simp add: updateTransactionsCurrencyInDB_def Let_def update_all_eq find_failed_cases
          db_update_user_settings_def convert_call_def amount_patch_def split: option.splits)
  from a b c d show ?thesis by blast
qed

text \<open>
  C8: \<^verbatim>\<open>updateCurrencyWithoutConversion\<close> sends exactly one request, the update of
  the user settings, and none on transactions; the transactions table is left as it was;
  and the store changes in its currency only, which becomes the new code when the
  backend accepts the settings update (when it rejects it, the caller gets an exception
  and the store is unchanged).
\<close>

theorem C8_keepAsIs_frame:
  "db_transactions (snd (updateCurrencyWithoutConversion respond now oldCurrency newCurrency w)) =
     db_transactions w
   \<and> calls (snd (updateCurrencyWithoutConversion respond now oldCurrency newCurrency w)) =
       calls w @ [UpdateUserSettings (map_option us_id (settings (store w))) newCurrency now]
   \<and> store (snd (updateCurrencyWithoutConversion respond now oldCurrency newCurrency w)) =
       (if respond (UpdateUserSettings (map_option us_id (settings (store w))) newCurrency now)
            = None
        then (store w)\<lparr>currency := newCurrency\<rparr> else store w)
   \<and> fst (updateCurrencyWithoutConversion respond now oldCurrency newCurrency w) =
       (case respond (UpdateUserSettings (map_option us_id (settings (store w))) newCurrency now)
        of None \<Rightarrow> Inr ()
         | Some msg \<Rightarrow> Inl (Error (''Failed to update user settings: '' @ msg)))"
  by (simp add: updateCurrencyWithoutConversion_def db_update_user_settings_def Let_def
        setCurrency_def split: option.splits)

section \<open>Sensitive fields and the key\<close>

text \<open>The amount 42.5 converted at the rate 2 is 85.\<close>

lemma double_85: "roundToDouble 85 = Fin 85"
  using roundToDouble_eqI [of 6 85 5981343255101440] by simp

lemma example_convert_85:
  "js_Number (toFixed2 (js_mul (toNumber (Some (Fin (85 / 2)))) (Fin 2))) = Fin 85"
proof -
  have m: "js_mul (toNumber (Some (Fin (85 / 2)))) (Fin 2) = Fin 85"
    using double_85 by (simp add: toNumber_def)
  have "round_half_away_2dp (of_int 85) = of_int 85" by (rule round_half_away_2dp_int)
  then have r: "round_half_away_2dp 85 = 85" by simp
  have "js_Number (toFixed2 (js_mul (toNumber (Some (Fin (85 / 2)))) (Fin 2)))
          = (case js_mul (toNumber (Some (Fin (85 / 2)))) (Fin 2) of
               Fin x \<Rightarrow> roundToDouble (round_half_away_2dp x) | v \<Rightarrow> v)"
    by (rule converted_amount)
  also have "\<dots> = roundToDouble (round_half_away_2dp 85)"
    by (simp only: m jsnum.simps)
  also have "\<dots> = Fin 85"
    by (simp only: r double_85)
  finally show ?thesis .
qed

text \<open>
  C1, on the code: with encryption enabled and \<^verbatim>\<open>key = null\<close>, updating an encrypted
  row does not fail. \<^verbatim>\<open>updateTransaction\<close> takes the branch for ``no key'', sends the
  new amount and description in clear, and the row then carries them next to its
  envelope; \<^verbatim>\<open>fetchTransactions\<close> returns the encrypted row as stored, with no error.
\<close>

theorem C1_locked_cleartext_fallback:
  "fst (updateTransaction pf (\<lambda>c. None) iv_bytes ''t1''
          (empty_patch\<lparr>set_amount := Some (Fin 42), set_description := Some ''rent''\<rparr>)
          None example_locked)
     = Inr ((example_encrypted_row ''t1'')\<lparr>amount := Some (Fin 42),
              description := Some ''rent''\<rparr>)
   \<and> calls (snd (updateTransaction pf (\<lambda>c. None) iv_bytes ''t1''
          (empty_patch\<lparr>set_amount := Some (Fin 42), set_description := Some ''rent''\<rparr>)
          None example_locked))
     = [UpdateTransaction ''t1''
          (empty_patch\<lparr>set_amount := Some (Fin 42), set_description := Some ''rent''\<rparr>)]
   \<and> db_transactions (snd (updateTransaction pf (\<lambda>c. None) iv_bytes ''t1''
          (empty_patch\<lparr>set_amount := Some (Fin 42), set_description := Some ''rent''\<rparr>)
          None example_locked))
     = [(example_encrypted_row ''t1'')\<lparr>amount := Some (Fin 42), description := Some ''rent''\<rparr>]
   \<and> fst (fetchTransactions pf (\<lambda>c. None) None example_locked)
     = Inr [example_encrypted_row ''t1'']"
  by (simp add: updateTransaction_def fetchTransactions_def clear_fields_patch_def
        db_update_transaction_def single_def Let_def example_locked_def
        example_encrypted_row_def apply_patch_def empty_patch_def truthy_str_def
        json_number_def)

text \<open>
  C2, on the code: the conversion of a store whose only transaction is encrypted (the
  table row holds an envelope and no clear field) succeeds and writes the converted
  amount in clear into that row, which afterwards carries both a clear sensitive field
  (the amount 85) and the envelope.
\<close>

theorem C2_convert_breaks_exclusivity:
  "list_all exclusive_row (db_transactions example_unlocked)
   \<and> fst (updateTransactionsCurrencyInDB (\<lambda>c. None) example_now ''USD'' ''EUR'' (Fin 2)
          example_unlocked) = Inr ()
   \<and> map (\<lambda>r. (has_clear r, has_envelope r))
        (db_transactions (snd (updateTransactionsCurrencyInDB (\<lambda>c. None) example_now
            ''USD'' ''EUR'' (Fin 2) example_unlocked)))
     = [(True, True)]
   \<and> map amount
        (db_transactions (snd (updateTransactionsCurrencyInDB (\<lambda>c. None) example_now
            ''USD'' ''EUR'' (Fin 2) example_unlocked)))
     = [Some (Fin 85)]
   \<and> \<not> list_all exclusive_row
        (db_transactions (snd (updateTransactionsCurrencyInDB (\<lambda>c. None) example_now
            ''USD'' ''EUR'' (Fin 2) example_unlocked)))"
  by (simp add: updateTransactionsCurrencyInDB_def Let_def update_all_eq example_unlocked_def
        example_encrypted_row_def convertTransactionsCurrency_def convert_call_def
        apply_successful_def apply_patch_def amount_patch_def empty_patch_def
        db_update_user_settings_def exclusive_row_def has_clear_def has_envelope_def
        initialState_def example_convert_85 json_number_def)

section \<open>The session key is never persisted\<close>

text \<open>
  C9: the persisted projection of the application state consists of the credentials, the
  encryption configuration, the currency, the onboarding flag and the salt, and nothing
  else; it does not depend on the \<^verbatim>\<open>encryptionKey\<close> field (two states that differ
  only in the key persist identically, so whatever a setter puts there never reaches
  localStorage); and \<^verbatim>\<open>clearCredentials\<close> (logout) resets the key to null.
\<close>

theorem C9_key_not_persisted:
  "partialize (s\<lparr>encryptionKey := k\<rparr>) = partialize s
   \<and> partialize (setEncryptionKey k s) = partialize s
   \<and> partialize s = \<lparr> p_credentials = credentials s,
        p_encryptionConfig = encryptionConfig s, p_currency = currency s,
        p_isOnboarded = isOnboarded s, p_salt = salt s \<rparr>
   \<and> encryptionKey (clearCredentials s) = None
   \<and> encryptionKey initialState = None"
  by (simp add: partialize_def setEncryptionKey_def clearCredentials_def initialState_def)

end
